theory Spec2Isabelle
  imports Complex_Main
begin

section \<open>Numbers and strings of the JavaScript sources\<close>

text \<open>
  JavaScript numbers are modelled as rationals: every decimal literal and every result of
  \<open>+\<close>, \<open>-\<close>, \<open>*\<close>, \<open>/\<close> is the exact value. The rounding error of IEEE-754 doubles
  and the values \<open>NaN\<close> and \<open>Infinity\<close> are outside the model. A text is a list of characters
  with code points below 256; \<open>toLowerCase\<close> acts on the letters \<open>A\<close>..\<open>Z\<close> and on the
  capital letters of the upper half (code points 192 to 222 without 215) and leaves every
  other character as it is.
\<close>

definition Math_round :: "rat \<Rightarrow> int" where
  \<comment> \<open>\<open>Math.round\<close>: the nearest integer, a tie going to the larger one.\<close>
  "Math_round x = \<lfloor>x + 1 / 2\<rfloor>"

definition toLowerChar :: "char \<Rightarrow> char" where
  "toLowerChar c =
     (let n = (of_char c :: nat) in
      if (65 \<le> n \<and> n \<le> 90) \<or> (192 \<le> n \<and> n \<le> 222 \<and> n \<noteq> 215)
      then char_of (n + 32) else c)"

definition toLowerCase :: "string \<Rightarrow> string" where
  "toLowerCase s = map toLowerChar s"

fun startsWith :: "string \<Rightarrow> string \<Rightarrow> bool" where
  "startsWith s [] = True"
| "startsWith [] (w # ws) = False"
| "startsWith (c # cs) (w # ws) = (c = w \<and> startsWith cs ws)"

fun includes_str :: "string \<Rightarrow> string \<Rightarrow> bool" where
  \<comment> \<open>\<open>s.includes(w)\<close>: \<open>w\<close> occurs in \<open>s\<close> as a contiguous substring.\<close>
  "includes_str [] w = (w = [])"
| "includes_str (c # cs) w = (startsWith (c # cs) w \<or> includes_str cs w)"


section \<open>The rule-based scorer of the serverless variant (\<open>analyzeSentimentSimple\<close>)\<close>

datatype sentiment_label = Positive | Negative | Neutral

record class_probabilities =
  pPositive :: rat
  pNegative :: rat
  pNeutral :: rat

record simple_result =
  label :: sentiment_label
  s_confidence :: rat
  s_probabilities :: class_probabilities

definition positiveWords :: "string list" where
  "positiveWords =
     [''love'', ''great'', ''awesome'', ''amazing'', ''excellent'', ''fantastic'', ''wonderful'',
      ''good'', ''best'', ''perfect'', ''happy'', ''excited'', ''brilliant'', ''outstanding'',
      ''superb'', ''magnificent'', ''incredible'', ''marvelous'', ''terrific'', ''fabulous'']"

definition negativeWords :: "string list" where
  "negativeWords =
     [''hate'', ''terrible'', ''awful'', ''horrible'', ''bad'', ''worst'', ''disgusting'',
      ''disappointing'', ''sad'', ''angry'', ''frustrated'', ''annoying'', ''useless'',
      ''pathetic'', ''ridiculous'', ''stupid'', ''boring'', ''dreadful'', ''appalling'']"

definition score :: "string list \<Rightarrow> string \<Rightarrow> nat" where
  \<comment> \<open>The \<open>forEach\<close> loops: one increment for each list word that the text includes.\<close>
  "score ws lowerText = length (filter (includes_str lowerText) ws)"

definition positiveScore :: "string \<Rightarrow> nat" where
  "positiveScore text = score positiveWords (toLowerCase text)"

definition negativeScore :: "string \<Rightarrow> nat" where
  "negativeScore text = score negativeWords (toLowerCase text)"

definition simple_sentiment :: "string \<Rightarrow> sentiment_label" where
  \<comment> \<open>The local variable \<open>sentiment\<close>.\<close>
  "simple_sentiment text =
     (if positiveScore text > negativeScore text then Positive
      else if negativeScore text > positiveScore text then Negative
      else Neutral)"

definition simple_confidence :: "string \<Rightarrow> rat" where
  \<comment> \<open>The local variable \<open>confidence\<close>, before the rounding of the \<open>return\<close>.\<close>
  "simple_confidence text =
     (if positiveScore text > negativeScore text
        then min (6 / 10 + of_nat (positiveScore text) * (1 / 10)) (95 / 100)
      else if negativeScore text > positiveScore text
        then min (6 / 10 + of_nat (negativeScore text) * (1 / 10)) (95 / 100)
      else 7 / 10)"

definition simple_probabilities :: "string \<Rightarrow> class_probabilities" where
  \<comment> \<open>The local object \<open>probabilities\<close>, before the rounding of the \<open>return\<close>.\<close>
  "simple_probabilities text =
     (let sentiment = simple_sentiment text; confidence = simple_confidence text in
      if sentiment = Positive then
        \<lparr>pPositive = confidence,
         pNegative = (1 - confidence) * (3 / 10),
         pNeutral = (1 - confidence) * (7 / 10)\<rparr>
      else if sentiment = Negative then
        \<lparr>pPositive = (1 - confidence) * (3 / 10),
         pNegative = confidence,
         pNeutral = (1 - confidence) * (7 / 10)\<rparr>
      else
        \<lparr>pPositive = (1 - confidence) * (5 / 10),
         pNegative = (1 - confidence) * (5 / 10),
         pNeutral = confidence\<rparr>)"

definition round2 :: "rat \<Rightarrow> rat" where
  \<comment> \<open>\<open>Math.round(x * 100) / 100\<close>\<close>
  "round2 x = of_int (Math_round (x * 100)) / 100"

definition analyzeSentimentSimple :: "string \<Rightarrow> simple_result" where
  "analyzeSentimentSimple text =
     \<lparr>label = simple_sentiment text,
      s_confidence = round2 (simple_confidence text),
      s_probabilities =
        \<lparr>pPositive = round2 (pPositive (simple_probabilities text)),
         pNegative = round2 (pNegative (simple_probabilities text)),
         pNeutral = round2 (pNeutral (simple_probabilities text))\<rparr>\<rparr>"


section \<open>Values received from the inference endpoint\<close>

text \<open>
  The gateway reads the parsed JSON body of the endpoint without checking its shape, so
  the model keeps the values untyped. \<open>JUndefined\<close> is the value of a property that is not
  there. An object is the list of its own properties; the keys of a parsed object are
  distinct, and no claim depends on their order.
\<close>

datatype jsval =
    JUndefined
  | JNull
  | JBool bool
  | JNum rat
  | JStr string
  | JArr "jsval list"
  | JObj "(string \<times> jsval) list"

datatype js_error = TypeError

fun truthy :: "jsval \<Rightarrow> bool" where
  "truthy JUndefined = False"
| "truthy JNull = False"
| "truthy (JBool b) = b"
| "truthy (JNum x) = (x \<noteq> 0)"
| "truthy (JStr s) = (s \<noteq> [])"
| "truthy (JArr xs) = True"
| "truthy (JObj fs) = True"

fun getProp :: "jsval \<Rightarrow> string \<Rightarrow> js_error + jsval" where
  \<comment> \<open>\<open>v.k\<close> for the property names the gateway reads: \<open>sentiment\<close>, \<open>confidence\<close>,
      \<open>probabilities\<close>, \<open>predictions\<close>, \<open>error\<close>, \<open>status\<close>, \<open>responseTime\<close>, \<open>version\<close>,
      \<open>modelsLoaded\<close>. None of them is a built-in property of a string, a number, a
      boolean, an array or \<open>Object.prototype\<close>.\<close>
  "getProp JUndefined k = Inl TypeError"
| "getProp JNull k = Inl TypeError"
| "getProp (JObj fs) k = Inr (case map_of fs k of Some v \<Rightarrow> v | None \<Rightarrow> JUndefined)"
| "getProp v k = Inr JUndefined"

definition round3 :: "rat \<Rightarrow> rat" where
  \<comment> \<open>\<open>parseFloat(x.toFixed(3))\<close>: \<open>toFixed\<close> takes the integer \<open>n\<close> with \<open>n / 1000\<close> nearest
      to the magnitude of \<open>x\<close>, the larger \<open>n\<close> at a tie, and keeps the sign. Above
      \<open>10^21\<close> \<open>toFixed\<close> prints the number itself; a double of that size is an integer,
      which the rounding leaves as it is.\<close>
  "round3 x =
     (if x < 0 then - (of_int \<lfloor>(- x) * 1000 + 1 / 2\<rfloor> / 1000)
      else of_int \<lfloor>x * 1000 + 1 / 2\<rfloor> / 1000)"

fun toFixed3 :: "jsval \<Rightarrow> js_error + rat" where
  \<comment> \<open>\<open>parseFloat(v.toFixed(3))\<close>: only a number has the method \<open>toFixed\<close>.\<close>
  "toFixed3 (JNum x) = Inr (round3 x)"
| "toFixed3 v = Inl TypeError"

function decimal :: "nat \<Rightarrow> string" where
  "decimal n =
     (if n < 10 then [char_of (48 + n)] else decimal (n div 10) @ [char_of (48 + n mod 10)])"
  by pat_completeness auto
termination
  by (relation "measure id") auto

fun ownEntries :: "jsval \<Rightarrow> (string \<times> jsval) list" where
  \<comment> \<open>\<open>Object.keys(v)\<close>, each key with \<open>v[key]\<close>.\<close>
  "ownEntries (JObj fs) = fs"
| "ownEntries (JArr xs) = zip (map decimal [0..<length xs]) xs"
| "ownEntries (JStr s) = zip (map decimal [0..<length s]) (map (\<lambda>c. JStr [c]) s)"
| "ownEntries v = []"

fun roundEntries :: "(string \<times> jsval) list \<Rightarrow> js_error + (string \<times> rat) list" where
  \<comment> \<open>The \<open>forEach\<close> over the keys of \<open>mlResponse.probabilities\<close>. The assignment
      \<open>result.probabilities[key] = number\<close> stores a property, except under the key
      \<open>__proto__\<close>, where it runs the inherited setter, which ignores a number.\<close>
  "roundEntries [] = Inr []"
| "roundEntries ((k, v) # kvs) =
     (case toFixed3 v of
        Inl e \<Rightarrow> Inl e
      | Inr q \<Rightarrow>
          (case roundEntries kvs of
             Inl e \<Rightarrow> Inl e
           | Inr qs \<Rightarrow> Inr (if k = ''__proto__'' then qs else (k, q) # qs)))"

datatype emoji = SmilingFace | DisappointedFace | NeutralFace | ThinkingFace

datatype emoji_value =
    Glyph emoji
  | InheritedMember string  \<comment> \<open>the member of \<open>Object.prototype\<close> of that name\<close>

definition objectPrototypeNames :: "string list" where
  "objectPrototypeNames =
     [''constructor'', ''__proto__'', ''hasOwnProperty'', ''isPrototypeOf'',
      ''propertyIsEnumerable'', ''toLocaleString'', ''toString'', ''valueOf'',
      ''__defineGetter__'', ''__defineSetter__'', ''__lookupGetter__'', ''__lookupSetter__'']"

fun firstError :: "(js_error + 'a) list \<Rightarrow> js_error + 'a list" where
  "firstError [] = Inr []"
| "firstError (x # xs) =
     (case x of
        Inl e \<Rightarrow> Inl e
      | Inr y \<Rightarrow> (case firstError xs of Inl e \<Rightarrow> Inl e | Inr ys \<Rightarrow> Inr (y # ys)))"

fun keyString :: "jsval \<Rightarrow> js_error + string option" where
  \<comment> \<open>The property key that \<open>emojiMap[sentiment]\<close> looks up. \<open>None\<close> stands for a key that
      is the text of a number or holds a comma, which no property of the table or of
      \<open>Object.prototype\<close> has. An object whose own \<open>toString\<close> is data cannot be
      converted.\<close>
  "keyString JUndefined = Inr (Some ''undefined'')"
| "keyString JNull = Inr (Some ''null'')"
| "keyString (JBool b) = Inr (Some (if b then ''true'' else ''false''))"
| "keyString (JNum x) = Inr None"
| "keyString (JStr s) = Inr (Some s)"
| "keyString (JObj fs) =
     (if ''toString'' \<in> fst ` set fs then Inl TypeError else Inr (Some ''[object Object]''))"
| "keyString (JArr xs) =
     (case firstError
        (map (\<lambda>x. if x = JUndefined \<or> x = JNull then Inr (Some []) else keyString x) xs) of
        Inl e \<Rightarrow> Inl e
      | Inr [] \<Rightarrow> Inr (Some [])
      | Inr [k] \<Rightarrow> Inr k
      | Inr (k # k' # ks) \<Rightarrow> Inr None)"

definition getSentimentEmoji :: "jsval \<Rightarrow> js_error + emoji_value" where
  \<comment> \<open>\<open>emojiMap[sentiment] || fallback\<close>; the lookup also finds what the table inherits.\<close>
  "getSentimentEmoji sentiment =
     (case keyString sentiment of
        Inl e \<Rightarrow> Inl e
      | Inr None \<Rightarrow> Inr (Glyph ThinkingFace)
      | Inr (Some k) \<Rightarrow>
          Inr (if k = ''Positive'' then Glyph SmilingFace
               else if k = ''Negative'' then Glyph DisappointedFace
               else if k = ''Neutral'' then Glyph NeutralFace
               else if k \<in> set objectPrototypeNames then InheritedMember k
               else Glyph ThinkingFace))"


section \<open>The sentiment service of the gateway\<close>

text \<open>
  The service is one object with mutable statistics. A call is modelled from its start
  to its end with no other call in between; what the endpoint answers and what the clock
  shows are given to the call as its environment. Every \<open>throw\<close> of the source is a
  branch that returns \<open>Inl\<close>.
\<close>

record api_result =
  sentiment :: jsval
  confidence :: rat
  processingTime :: "rat option"
    \<comment> \<open>the number printed before \<open>ms\<close>; \<open>None\<close> when a division by zero made it
        \<open>NaN\<close> or \<open>Infinity\<close>\<close>
  probabilities :: "(string \<times> rat) list option"
  r_text :: "string option"  \<comment> \<open>the property \<open>text\<close>\<close>
  emoji :: emoji_value

definition transformMLResponse ::
    "jsval \<Rightarrow> rat option \<Rightarrow> string option \<Rightarrow> js_error + api_result" where
  "transformMLResponse mlResponse procTime originalText =
     (case getProp mlResponse ''sentiment'' of
        Inl e \<Rightarrow> Inl e
      | Inr s \<Rightarrow>
     (case getProp mlResponse ''confidence'' of
        Inl e \<Rightarrow> Inl e
      | Inr c \<Rightarrow>
     (case toFixed3 (if truthy c then c else JNum 0) of
        Inl e \<Rightarrow> Inl e
      | Inr conf \<Rightarrow>
     (case getProp mlResponse ''probabilities'' of
        Inl e \<Rightarrow> Inl e
      | Inr ps \<Rightarrow>
     (case (if truthy ps then map_sum id Some (roundEntries (ownEntries ps)) else Inr None) of
        Inl e \<Rightarrow> Inl e
      | Inr probs \<Rightarrow>
     (case getSentimentEmoji s of
        Inl e \<Rightarrow> Inl e
      | Inr em \<Rightarrow>
          Inr \<lparr>sentiment = s, confidence = conf, processingTime = procTime,
               probabilities = probs,
               r_text = (case originalText of
                           None \<Rightarrow> None
                         | Some t \<Rightarrow> if t \<noteq> [] then Some t else None),
               emoji = em\<rparr>))))))"

record ServiceStats =
  totalRequests :: nat
  successfulRequests :: nat
  failedRequests :: nat
  averageResponseTime :: int
  lastRequestTime :: "int option"

definition initialStats :: ServiceStats where
  "initialStats =
     \<lparr>totalRequests = 0, successfulRequests = 0, failedRequests = 0,
      averageResponseTime = 0, lastRequestTime = None\<rparr>"

definition updateStats :: "int \<Rightarrow> bool \<Rightarrow> int \<Rightarrow> ServiceStats \<Rightarrow> ServiceStats" where
  \<comment> \<open>\<open>updateStats(responseTime, success)\<close>; the third argument is the clock that
      \<open>new Date()\<close> reads. The service calls it after \<open>totalRequests++\<close> only, so the
      divisor is never 0.\<close>
  "updateStats responseTime success clock st =
     st\<lparr>successfulRequests := (if success then successfulRequests st + 1
                                else successfulRequests st),
        failedRequests := (if success then failedRequests st else failedRequests st + 1),
        averageResponseTime :=
          Math_round
            ((of_int (averageResponseTime st) * (of_nat (totalRequests st) - 1)
              + of_int responseTime) / of_nat (totalRequests st)),
        lastRequestTime := Some clock\<rparr>"

record axios_error =
  err_code :: "string option"  \<comment> \<open>\<open>error.code\<close>\<close>
  response :: "(jsval \<times> string) option"
    \<comment> \<open>\<open>error.response\<close>: its \<open>data\<close> and its \<open>statusText\<close>\<close>

datatype service_error =
    ServiceNotAvailable
  | ServiceTimedOut
  | ServiceErrorDetail jsval
  | FailedToAnalyze
  | FailedToCommunicate

fun message_start :: "service_error \<Rightarrow> string" where
  \<comment> \<open>The message of the thrown \<open>Error\<close>; for \<open>ServiceErrorDetail d\<close> the text of \<open>d\<close>
      follows.\<close>
  "message_start ServiceNotAvailable =
     ''ML service is not available. Please ensure the Python service is running.''"
| "message_start ServiceTimedOut = ''ML service request timed out. Please try again.''"
| "message_start (ServiceErrorDetail d) = ''ML service error: ''"
| "message_start FailedToAnalyze = ''Failed to analyze sentiment. Please try again.''"
| "message_start FailedToCommunicate =
     ''Failed to communicate with ML service. Please try again.''"

definition handleMLServiceError :: "service_error \<Rightarrow> axios_error \<Rightarrow> service_error" where
  \<comment> \<open>The chain of \<open>handleMLServiceError\<close>, which the \<open>catch\<close> of \<open>analyzeSentiment\<close>
      repeats with another last message; the first argument is that last message.\<close>
  "handleMLServiceError fallback error =
     (if err_code error = Some ''ECONNREFUSED'' then ServiceNotAvailable
      else if err_code error = Some ''ETIMEDOUT'' then ServiceTimedOut
      else (case response error of
              Some (data, statusText) \<Rightarrow>
                ServiceErrorDetail
                  (let detail = (if data = JUndefined \<or> data = JNull then JUndefined
                                 else (case getProp data ''error'' of
                                         Inr v \<Rightarrow> v | Inl e \<Rightarrow> JUndefined))
                   in if truthy detail then detail else JStr statusText)
            | None \<Rightarrow> fallback))"

definition thrownTypeError :: axios_error where
  \<comment> \<open>A \<open>TypeError\<close> thrown inside the \<open>try\<close> block has no \<open>code\<close> and no \<open>response\<close>.\<close>
  "thrownTypeError = \<lparr>err_code = None, response = None\<rparr>"

record analysis_options =
  includeConfidence :: "bool option"
  model :: "string option"

record upstream_request =
  path :: string
  texts_sent :: "string list"
  include_probabilities :: bool
  model_sent :: string
  timeout_ms :: nat

record call_env =
  outcome :: "axios_error + jsval"
    \<comment> \<open>how \<open>axios.post\<close> settles: rejected with an error, or resolved with \<open>response.data\<close>\<close>
  elapsed :: int  \<comment> \<open>\<open>Date.now() - startTime\<close> when the call has settled\<close>
  clock :: int  \<comment> \<open>the time \<open>updateStats\<close> reads then\<close>
  elapsed_catch :: int
    \<comment> \<open>\<open>Date.now() - startTime\<close> in the \<open>catch\<close> block, when the \<open>try\<close> block threw
        after the call had resolved\<close>
  clock_catch :: int  \<comment> \<open>the time \<open>updateStats\<close> reads then\<close>

record SentimentService =
  mlServiceUrl :: string
  timeout :: nat
  stats :: ServiceStats
  requests_sent :: "upstream_request list"
    \<comment> \<open>the calls of \<open>axios.post\<close> made so far; kept to state that a call was or was not
        made\<close>

definition newService :: "string \<Rightarrow> nat \<Rightarrow> SentimentService" where
  \<comment> \<open>The constructor, from \<open>config.ML_SERVICE_URL\<close> and \<open>config.ML_SERVICE_TIMEOUT\<close>.\<close>
  "newService url t =
     \<lparr>mlServiceUrl = url, timeout = t, stats = initialStats, requests_sent = []\<rparr>"

definition modelOrDefault :: "string option \<Rightarrow> string" where
  \<comment> \<open>\<open>options.model || 'random_forest'\<close>\<close>
  "modelOrDefault m = (case m of Some n \<Rightarrow> if n \<noteq> [] then n else ''random_forest''
                       | None \<Rightarrow> ''random_forest'')"

definition beginRequest :: "upstream_request \<Rightarrow> SentimentService \<Rightarrow> SentimentService" where
  \<comment> \<open>\<open>this.stats.totalRequests++\<close>, then the call of \<open>axios.post\<close>.\<close>
  "beginRequest req svc =
     svc\<lparr>stats := (stats svc)\<lparr>totalRequests := totalRequests (stats svc) + 1\<rparr>,
         requests_sent := requests_sent svc @ [req]\<rparr>"

definition recordStats :: "int \<Rightarrow> bool \<Rightarrow> int \<Rightarrow> SentimentService \<Rightarrow> SentimentService" where
  "recordStats responseTime success clk svc =
     svc\<lparr>stats := updateStats responseTime success clk (stats svc)\<rparr>"

definition analyzeSentiment ::
    "call_env \<Rightarrow> string \<Rightarrow> analysis_options \<Rightarrow> SentimentService
       \<Rightarrow> (service_error + api_result) \<times> SentimentService" where
  "analyzeSentiment env txt options svc =
     (let svc1 = beginRequest
            \<lparr>path = ''/predict'', texts_sent = [txt],
             include_probabilities = (includeConfidence options \<noteq> Some False),
             model_sent = modelOrDefault (model options),
             timeout_ms = timeout svc\<rparr> svc
      in case outcome env of
           Inr data \<Rightarrow>
             (let svc2 = recordStats (elapsed env) True (clock env) svc1
              in case transformMLResponse data (Some (of_int (elapsed env))) None of
                   Inr result \<Rightarrow> (Inr result, svc2)
                 | Inl e \<Rightarrow>
                     (Inl (handleMLServiceError FailedToAnalyze thrownTypeError),
                      recordStats (elapsed_catch env) False (clock_catch env) svc2))
         | Inl error \<Rightarrow>
             (Inl (handleMLServiceError FailedToAnalyze error),
              recordStats (elapsed env) False (clock env) svc1))"

definition js_divide :: "rat \<Rightarrow> rat \<Rightarrow> rat option" where
  \<comment> \<open>\<open>a / b\<close>; \<open>None\<close> is \<open>NaN\<close> or \<open>Infinity\<close>.\<close>
  "js_divide a b = (if b = 0 then None else Some (a / b))"

definition transformPrediction ::
    "rat option \<Rightarrow> string list \<Rightarrow> jsval \<Rightarrow> nat \<Rightarrow> js_error + api_result" where
  \<comment> \<open>The callback of \<open>predictions.map\<close>.\<close>
  "transformPrediction procTime texts prediction index =
     (case getProp prediction ''sentiment'' of
        Inl e \<Rightarrow> Inl e
      | Inr s \<Rightarrow>
     (case getProp prediction ''confidence'' of
        Inl e \<Rightarrow> Inl e
      | Inr c \<Rightarrow>
     (case getProp prediction ''probabilities'' of
        Inl e \<Rightarrow> Inl e
      | Inr ps \<Rightarrow>
          transformMLResponse
            (JObj [(''sentiment'', s), (''confidence'', c), (''probabilities'', ps)])
            procTime
            (if index < length texts then Some (texts ! index) else None))))"

definition transformPredictions ::
    "jsval \<Rightarrow> int \<Rightarrow> string list \<Rightarrow> js_error + api_result list" where
  \<comment> \<open>\<open>response.data.predictions.map(...)\<close>: only an array has the method \<open>map\<close>.\<close>
  "transformPredictions data procTime texts =
     (case getProp data ''predictions'' of
        Inl e \<Rightarrow> Inl e
      | Inr (JArr predictions) \<Rightarrow>
          firstError
            (map (\<lambda>(prediction, index).
                    transformPrediction
                      (js_divide (of_int procTime) (of_nat (length texts)))
                      texts prediction index)
               (zip predictions [0..<length predictions]))
      | Inr v \<Rightarrow> Inl TypeError)"

definition analyzeBatchSentiment ::
    "call_env \<Rightarrow> string list \<Rightarrow> analysis_options \<Rightarrow> SentimentService
       \<Rightarrow> (service_error + api_result list) \<times> SentimentService" where
  "analyzeBatchSentiment env texts options svc =
     (let svc1 = beginRequest
            \<lparr>path = ''/predict/batch'', texts_sent = texts,
             include_probabilities = (includeConfidence options \<noteq> Some False),
             model_sent = modelOrDefault (model options),
             timeout_ms = timeout svc * 2\<rparr> svc
      in case outcome env of
           Inr data \<Rightarrow>
             (let svc2 = recordStats (elapsed env) True (clock env) svc1
              in case transformPredictions data (elapsed env) texts of
                   Inr results \<Rightarrow> (Inr results, svc2)
                 | Inl e \<Rightarrow>
                     (Inl (handleMLServiceError FailedToCommunicate thrownTypeError),
                      recordStats (elapsed_catch env) False (clock_catch env) svc2))
         | Inl error \<Rightarrow>
             (Inl (handleMLServiceError FailedToCommunicate error),
              recordStats (elapsed env) False (clock env) svc1))"


section \<open>The routes of the gateway\<close>

text \<open>
  The validation chain and the handler of \<open>POST /api/sentiment/analyze\<close> are modelled;
  the middleware in front of them (rate limit, body parser) is not. The request body is
  taken as typed: a text, if any, is a string, \<open>includeConfidence\<close> a boolean and \<open>model\<close>
  a string.
\<close>

definition isSpace :: "char \<Rightarrow> bool" where
  \<comment> \<open>The white space that \<open>trim\<close> strips, among the code points below 256.\<close>
  "isSpace c = ((of_char c :: nat) \<in> {9, 10, 11, 12, 13, 32, 160})"

definition trim :: "string \<Rightarrow> string" where
  "trim s = rev (dropWhile isSpace (rev (dropWhile isSpace s)))"

record analyze_body =
  b_text :: "string option"  \<comment> \<open>the property \<open>text\<close> of the request body\<close>
  b_options :: "analysis_options option"

definition optionsOf :: "analyze_body \<Rightarrow> analysis_options" where
  \<comment> \<open>\<open>const { text, options = {} } = req.body\<close>\<close>
  "optionsOf body =
     (case b_options body of
        Some opts \<Rightarrow> opts
      | None \<Rightarrow> \<lparr>includeConfidence = None, model = None\<rparr>)"

definition sanitizedText :: "analyze_body \<Rightarrow> string" where
  \<comment> \<open>The sanitizer \<open>trim()\<close> stands first in the chain of \<open>body('text')\<close>: the validators
      after it and the handler read the trimmed text. A missing text reads as the empty
      string.\<close>
  "sanitizedText body = trim (case b_text body of Some t \<Rightarrow> t | None \<Rightarrow> [])"

definition validModels :: "string list" where
  "validModels = [''random_forest'', ''logistic_regression'', ''naive_bayes'']"

definition validateTextInput :: "analyze_body \<Rightarrow> string list" where
  \<comment> \<open>The messages of the failed validators, in the order of the chains. The pattern of
      \<open>matches\<close> accepts every string, and \<open>isBoolean\<close> accepts every boolean.\<close>
  "validateTextInput body =
     (let t = sanitizedText body in
      (if t = [] then [''Text is required''] else [])
      @ (if length t < 1 \<or> 5000 < length t
         then [''Text must be between 1 and 5000 characters''] else [])
      @ (case model (optionsOf body) of
           None \<Rightarrow> []
         | Some m \<Rightarrow> if m \<in> set validModels then [] else [''Invalid model type'']))"

datatype http_response =
    AnalysisOk api_result  \<comment> \<open>status 200, \<open>success: true\<close>\<close>
  | ValidationFailed "string list"  \<comment> \<open>status 400, \<open>error: 'Validation failed'\<close>\<close>
  | ErrorResponse nat service_error  \<comment> \<open>the answer of \<open>errorHandler\<close>\<close>

fun statusCode :: "http_response \<Rightarrow> nat" where
  "statusCode (AnalysisOk r) = 200"
| "statusCode (ValidationFailed details) = 400"
| "statusCode (ErrorResponse c e) = c"

definition errorHandler :: "service_error \<Rightarrow> http_response" where
  \<comment> \<open>For the errors the service throws: plain \<open>Error\<close> objects without \<open>code\<close> or
      \<open>statusCode\<close>, so the branch on \<open>err.message.includes('ML service')\<close> decides.\<close>
  "errorHandler err =
     ErrorResponse (if includes_str (message_start err) ''ML service'' then 503 else 500) err"

definition post_analyze ::
    "call_env \<Rightarrow> analyze_body \<Rightarrow> SentimentService \<Rightarrow> http_response \<times> SentimentService" where
  \<comment> \<open>\<open>POST /api/sentiment/analyze\<close>\<close>
  "post_analyze env body svc =
     (if validateTextInput body \<noteq> [] then (ValidationFailed (validateTextInput body), svc)
      else
        (let options = optionsOf body;
             analysisOptions =
               \<lparr>includeConfidence = Some (includeConfidence options \<noteq> Some False),
                model = Some (modelOrDefault (model options))\<rparr>
         in case analyzeSentiment env (sanitizedText body) analysisOptions svc of
              (Inr result, svc') \<Rightarrow> (AnalysisOk result, svc')
            | (Inl err, svc') \<Rightarrow> (errorHandler err, svc')))"

definition valid_text :: "string \<Rightarrow> bool" where
  \<comment> \<open>The chain on the elements of \<open>texts\<close>: not empty after \<open>trim\<close>, at most 5000 characters.\<close>
  "valid_text t = (trim t \<noteq> [] \<and> 1 \<le> length (trim t) \<and> length (trim t) \<le> 5000)"

definition valid_batch :: "string list \<Rightarrow> bool" where
  \<comment> \<open>The validators of \<open>POST /api/sentiment/batch\<close>: an array of 1 to 100 valid texts.\<close>
  "valid_batch texts = (1 \<le> length texts \<and> length texts \<le> 100 \<and> list_all valid_text texts)"


section \<open>The health routes\<close>

record health_env =
  probe :: "string + jsval"
    \<comment> \<open>how \<open>axios.get\<close> settles: rejected with an error of that message, or resolved
        with \<open>response.data\<close>\<close>
  probe_time :: int  \<comment> \<open>\<open>Date.now() - startTime\<close> when it has settled\<close>

definition spread :: "jsval \<Rightarrow> (string \<times> jsval) list" where
  \<comment> \<open>\<open>...v\<close> in an object literal: the own properties of \<open>v\<close>; nothing for a value that is
      not an object, an array or a string.\<close>
  "spread v = ownEntries v"

definition checkMLServiceHealth :: "bool \<Rightarrow> health_env \<Rightarrow> jsval" where
  \<comment> \<open>The object returned; in an object literal a later property of the same name wins,
      as the first one does in the list.\<close>
  "checkMLServiceHealth detailed env =
     (case probe env of
        Inr data \<Rightarrow>
          JObj ((if detailed then spread data else [])
                @ [(''status'', JStr ''healthy''),
                   (''responseTime'', JNum (of_int (probe_time env)))])
      | Inl message \<Rightarrow>
          JObj [(''status'', JStr ''unhealthy''),
                (''responseTime'', JNum (of_int (probe_time env))),
                (''error'', JStr message)])"

definition propOf :: "jsval \<Rightarrow> string \<Rightarrow> jsval" where
  \<comment> \<open>A property of the object that \<open>checkMLServiceHealth\<close> returned.\<close>
  "propOf v k = (case getProp v k of Inr x \<Rightarrow> x | Inl e \<Rightarrow> JUndefined)"

record health_response =
  h_status :: string  \<comment> \<open>the property \<open>status\<close>\<close>
  services_api :: jsval
  services_mlService :: jsval
    \<comment> \<open>the status of the endpoint; the detailed route nests it in an object\<close>
  http_status :: nat

definition get_health :: "health_env \<Rightarrow> health_response" where
  \<comment> \<open>\<open>GET /health\<close>\<close>
  "get_health env =
     (let mlHealth = checkMLServiceHealth False env;
          api = JStr ''healthy'';
          mlService = propOf mlHealth ''status'';
          serviceStatuses = [api, mlService];
          allServicesHealthy = list_all (\<lambda>status. status = JStr ''healthy'') serviceStatuses;
          status = (if \<not> allServicesHealthy then ''degraded'' else ''healthy'')
      in \<lparr>h_status = status, services_api = api, services_mlService = mlService,
          http_status = (if status = ''healthy'' then 200 else 503)\<rparr>)"

definition get_health_detailed :: "health_env \<Rightarrow> health_response" where
  \<comment> \<open>\<open>GET /health/detailed\<close>\<close>
  "get_health_detailed env =
     (let mlHealth = checkMLServiceHealth True env;
          api = JStr ''healthy'';
          mlService = propOf mlHealth ''status'';
          servicesHealthy = (mlService = JStr ''healthy'');
          status = (if \<not> servicesHealthy then ''degraded'' else ''healthy'')
      in \<lparr>h_status = status, services_api = api, services_mlService = mlService,
          http_status = (if status = ''healthy'' then 200 else 503)\<rparr>)"


section \<open>Sequences of calls to the service\<close>

datatype service_call =
    AnalyzeCall call_env string analysis_options
  | BatchCall call_env "string list" analysis_options

fun perform :: "service_call \<Rightarrow> SentimentService \<Rightarrow> SentimentService" where
  "perform (AnalyzeCall env txt options) svc = snd (analyzeSentiment env txt options svc)"
| "perform (BatchCall env texts options) svc = snd (analyzeBatchSentiment env texts options svc)"

fun run_calls :: "service_call list \<Rightarrow> SentimentService \<Rightarrow> SentimentService" where
  "run_calls [] svc = svc"
| "run_calls (c # cs) svc = run_calls cs (perform c svc)"

fun throws_after_reply :: "service_call \<Rightarrow> bool" where
  \<comment> \<open>The endpoint answered, and the \<open>try\<close> block threw while it transformed the answer.\<close>
  "throws_after_reply (AnalyzeCall env txt options) =
     (case outcome env of
        Inr data \<Rightarrow> (case transformMLResponse data (Some (of_int (elapsed env))) None of
                      Inl e \<Rightarrow> True | Inr r \<Rightarrow> False)
      | Inl error \<Rightarrow> False)"
| "throws_after_reply (BatchCall env texts options) =
     (case outcome env of
        Inr data \<Rightarrow> (case transformPredictions data (elapsed env) texts of
                      Inl e \<Rightarrow> True | Inr rs \<Rightarrow> False)
      | Inl error \<Rightarrow> False)"


section \<open>The contract of the inference endpoint and sample inputs\<close>

text \<open>
  Follows the spec's words, not the source: the endpoint exposes
  \<open>predict(text) \<rightarrow> {sentiment, confidence, probabilities?}\<close>, the sentiment a label,
  the confidence a number and the probabilities, when present, a mapping to numbers.
\<close>

fun is_number :: "jsval \<Rightarrow> bool" where
  "is_number (JNum x) = True"
| "is_number v = False"

fun is_string :: "jsval \<Rightarrow> bool" where
  "is_string (JStr s) = True"
| "is_string v = False"

definition numeric_entries :: "jsval \<Rightarrow> bool" where
  "numeric_entries v = list_all (\<lambda>(k, x). is_number x) (ownEntries v)"

definition well_typed_prediction :: "jsval \<Rightarrow> bool" where
  "well_typed_prediction p =
     (case p of
        JObj fs \<Rightarrow>
          is_string (propOf p ''sentiment'') \<and> is_number (propOf p ''confidence'')
          \<and> (case map_of fs ''probabilities'' of
                None \<Rightarrow> True
              | Some (JObj es) \<Rightarrow> numeric_entries (JObj es)
              | Some v \<Rightarrow> False)
      | v \<Rightarrow> False)"

text \<open>
  Follows the spec's words: \<open>y\<close> is \<open>x\<close> rounded to 3 decimal places when \<open>y\<close> is a multiple
  of \<open>0.001\<close> at distance at most \<open>0.0005\<close> from \<open>x\<close>.
\<close>

definition rounded_to_3_places :: "rat \<Rightarrow> rat \<Rightarrow> bool" where
  "rounded_to_3_places x y = ((\<exists>m :: int. y = of_int m / 1000) \<and> \<bar>y - x\<bar> \<le> 1 / 2000)"

definition sample_reply :: jsval where
  "sample_reply =
     JObj [(''sentiment'', JStr ''Positive''), (''confidence'', JNum (9 / 10))]"

definition malformed_reply :: jsval where
  \<comment> \<open>The confidence arrives as a string.\<close>
  "malformed_reply =
     JObj [(''sentiment'', JStr ''Positive''), (''confidence'', JStr ''0.9'')]"

definition reply_after :: "jsval \<Rightarrow> int \<Rightarrow> call_env" where
  \<comment> \<open>The endpoint answers with \<open>data\<close> after \<open>ms\<close> milliseconds.\<close>
  "reply_after data ms =
     \<lparr>outcome = Inr data, elapsed = ms, clock = ms, elapsed_catch = ms, clock_catch = ms\<rparr>"

definition refused_after :: "int \<Rightarrow> call_env" where
  \<comment> \<open>The connection to the endpoint is refused after \<open>ms\<close> milliseconds.\<close>
  "refused_after ms =
     \<lparr>outcome = Inl \<lparr>err_code = Some ''ECONNREFUSED'', response = None\<rparr>,
      elapsed = ms, clock = ms, elapsed_catch = ms, clock_catch = ms\<rparr>"

definition sample_predictions :: "jsval list" where
  "sample_predictions =
     [JObj [(''sentiment'', JStr ''Positive''), (''confidence'', JNum (9 / 10))],
      JObj [(''sentiment'', JStr ''Negative''), (''confidence'', JNum (8 / 10))]]"

definition sample_batch_reply :: jsval where
  "sample_batch_reply = JObj [(''predictions'', JArr sample_predictions)]"

definition skewed_reply :: jsval where
  \<comment> \<open>Probabilities that add up to about 0.7.\<close>
  "skewed_reply =
     JObj [(''sentiment'', JStr ''Positive''), (''confidence'', JNum (87654 / 100000)),
           (''probabilities'',
            JObj [(''Positive'', JNum (5004 / 10000)), (''Negative'', JNum (1 / 10)),
                  (''Neutral'', JNum (1 / 10))])]"

definition no_options :: analysis_options where
  "no_options = \<lparr>includeConfidence = None, model = None\<rparr>"

definition sample_service :: SentimentService where
  "sample_service = newService ''http://localhost:8000'' 30000"


text \<open>
  Follows the spec's words, not the source: "count occurrences of words from a fixed
  positive-word set and a fixed negative-word set in the lower-cased input". Every position
  of the text at which a list word starts is one occurrence.
\<close>

fun occurrences :: "string \<Rightarrow> string \<Rightarrow> nat" where
  "occurrences [] w = 0"
| "occurrences (c # cs) w = (if startsWith (c # cs) w then 1 else 0) + occurrences cs w"

definition spec_occurrence_count :: "string list \<Rightarrow> string \<Rightarrow> nat" where
  "spec_occurrence_count ws lowerText = sum_list (map (occurrences lowerText) ws)"

definition spec_simple_confidence :: "string \<Rightarrow> rat" where
  "spec_simple_confidence text =
     (let p = spec_occurrence_count positiveWords (toLowerCase text);
          n = spec_occurrence_count negativeWords (toLowerCase text) in
      if p > n then min (6 / 10 + (1 / 10) * of_nat p) (95 / 100)
      else if n > p then min (6 / 10 + (1 / 10) * of_nat n) (95 / 100)
      else 7 / 10)"


section \<open>Strings and rounding: basic facts\<close>

lemma startsWith_iff: "startsWith s w \<longleftrightarrow> (\<exists>ss. s = w @ ss)"
  by (induction s w rule: startsWith.induct) auto

lemma includes_str_iff: "includes_str s w \<longleftrightarrow> (\<exists>ps ss. s = ps @ w @ ss)"
proof (induction s)
  case Nil
  then show ?case by auto
next
  case (Cons c cs)
  show ?case
  proof
    assume "includes_str (c # cs) w"
    then consider "startsWith (c # cs) w" | "includes_str cs w" by auto
    then show "\<exists>ps ss. c # cs = ps @ w @ ss"
    proof cases
      case 1
      then obtain ss where "c # cs = w @ ss" using startsWith_iff by blast
      then have "c # cs = [] @ w @ ss" by simp
      then show ?thesis by blast
    next
      case 2
      then obtain ps ss where "cs = ps @ w @ ss" using Cons.IH by blast
      then have "c # cs = (c # ps) @ w @ ss" by simp
      then show ?thesis by blast
    qed
  next
    assume "\<exists>ps ss. c # cs = ps @ w @ ss"
    then obtain ps ss where eq: "c # cs = ps @ w @ ss" by blast
    show "includes_str (c # cs) w"
    proof (cases ps)
      case Nil
      with eq have "startsWith (c # cs) w" using startsWith_iff by auto
      then show ?thesis by simp
    next
      case (Cons p ps')
      with eq have "cs = ps' @ w @ ss" by simp
      then have "includes_str cs w" using Cons.IH by blast
      then show ?thesis by simp
    qed
  qed
qed

lemma score_le_length: "score ws s \<le> length ws"
  by (simp add: score_def)

lemma score_substrings:
  "score ws s = length (filter (\<lambda>w. \<exists>ps ss. s = ps @ w @ ss) ws)"
  unfolding score_def
  by (rule arg_cong[where f = length], rule filter_cong) (simp_all add: includes_str_iff)

lemma Math_round_of_int: "Math_round (of_int m) = m"
  unfolding Math_round_def by linarith

lemma round2_hundredths: "round2 (of_int m / 100) = of_int m / 100"
  by (simp add: round2_def Math_round_of_int)

lemma round2_seven_tenths: "round2 (7 / 10) = 7 / 10"
  using round2_hundredths[of 70] by simp

lemma capped_confidence_cases:
  "min (6 / 10 + of_nat k * (1 / 10)) (95 / 100 :: rat) =
     (if k \<le> 3 then of_int (60 + 10 * int k) / 100 else of_int 95 / 100)"
proof (cases "k \<le> 3")
  case True
  then have "(of_nat k :: rat) \<le> of_nat 3" by (simp only: of_nat_le_iff)
  then show ?thesis using True by (simp add: min_def field_simps)
next
  case False
  then have "4 \<le> k" by simp
  then have "(of_nat 4 :: rat) \<le> of_nat k" by (simp only: of_nat_le_iff)
  then show ?thesis using False by (simp add: min_def field_simps)
qed

lemma round2_capped_confidence:
  "round2 (min (6 / 10 + of_nat k * (1 / 10)) (95 / 100)) =
     min (6 / 10 + of_nat k * (1 / 10)) (95 / 100)"
  unfolding capped_confidence_cases
  by (simp only: round2_hundredths if_distrib[of round2])

lemma round2_simple_confidence: "round2 (simple_confidence text) = simple_confidence text"
  unfolding simple_confidence_def
  by (simp only: round2_capped_confidence round2_seven_tenths if_distrib[of round2])

lemma capped_confidence_lower:
  assumes "1 \<le> k"
  shows "7 / 10 \<le> min (6 / 10 + of_nat k * (1 / 10)) (95 / 100 :: rat)"
proof (rule min.boundedI)
  from assms have "(of_nat 1 :: rat) \<le> of_nat k" by (simp only: of_nat_le_iff)
  then show "7 / 10 \<le> 6 / 10 + of_nat k * (1 / 10 :: rat)" by simp
  show "7 / 10 \<le> (95 / 100 :: rat)" by simp
qed

lemma capped_confidence_upper:
  "min (6 / 10 + of_nat k * (1 / 10)) (95 / 100 :: rat) \<le> 95 / 100"
  by (rule min.cobounded2)

lemma simple_confidence_range:
  "7 / 10 \<le> simple_confidence text" "simple_confidence text \<le> 95 / 100"
proof -
  consider (pos) "positiveScore text > negativeScore text"
    | (neg) "negativeScore text > positiveScore text"
    | (tie) "positiveScore text = negativeScore text"
    by linarith
  then show "7 / 10 \<le> simple_confidence text"
  proof cases
    case pos
    then have "1 \<le> positiveScore text" by simp
    from capped_confidence_lower[OF this] pos show ?thesis
      by (simp only: simple_confidence_def if_True)
  next
    case neg
    then have "1 \<le> negativeScore text" by simp
    moreover from neg have "\<not> positiveScore text > negativeScore text" by simp
    ultimately show ?thesis
      using neg capped_confidence_lower[of "negativeScore text"]
      by (simp only: simple_confidence_def if_True if_False)
  next
    case tie
    then show ?thesis by (simp add: simple_confidence_def)
  qed
  show "simple_confidence text \<le> 95 / 100"
    unfolding simple_confidence_def
    using capped_confidence_upper[of "positiveScore text"]
      capped_confidence_upper[of "negativeScore text"]
    by (simp only: split: if_split) simp
qed


lemma simple_confidence_values:
  "simple_confidence text = 7 / 10 \<or> simple_confidence text = 8 / 10
   \<or> simple_confidence text = 9 / 10 \<or> simple_confidence text = 95 / 100"
proof -
  have cap: "min (6 / 10 + of_nat k * (1 / 10)) (95 / 100 :: rat)
      \<in> {7 / 10, 8 / 10, 9 / 10, 95 / 100}"
    if "1 \<le> k" for k :: nat
  proof -
    from that consider "k = 1" | "k = 2" | "k = 3" | "\<not> k \<le> 3" by linarith
    then show ?thesis
      by cases (simp_all add: capped_confidence_cases)
  qed
  consider (pos) "positiveScore text > negativeScore text"
    | (neg) "\<not> positiveScore text > negativeScore text"
        "negativeScore text > positiveScore text"
    | (tie) "\<not> positiveScore text > negativeScore text"
        "\<not> negativeScore text > positiveScore text"
    by linarith
  then show ?thesis
  proof cases
    case pos
    then have "1 \<le> positiveScore text" by simp
    from cap[OF this] pos show ?thesis by (simp only: simple_confidence_def if_True) blast
  next
    case neg
    then have "1 \<le> negativeScore text" by simp
    from cap[OF this] neg show ?thesis
      by (simp only: simple_confidence_def if_True if_False) blast
  next
    case tie
    then show ?thesis by (simp only: simple_confidence_def if_False simp_thms)
  qed
qed

lemma round2_exact: "x * 100 = of_int m \<Longrightarrow> round2 x = x"
  by (simp add: round2_def Math_round_of_int)

lemma round2_split_below_cap:
  assumes "c = 7 / 10 \<or> c = 8 / 10 \<or> c = 9 / (10 :: rat)"
  shows "round2 ((1 - c) * (3 / 10)) = (1 - c) * (3 / 10)"
    and "round2 ((1 - c) * (7 / 10)) = (1 - c) * (7 / 10)"
    and "round2 ((1 - c) * (5 / 10)) = (1 - c) * (5 / 10)"
proof -
  from assms consider "c = 7 / 10" | "c = 8 / 10" | "c = 9 / 10" by blast
  then have "(\<exists>m. (1 - c) * (3 / 10) * 100 = of_int m)
      \<and> (\<exists>m. (1 - c) * (7 / 10) * 100 = of_int m)
      \<and> (\<exists>m. (1 - c) * (5 / 10) * 100 = of_int m)"
  proof cases
    case 1
    have "(1 - c) * (3 / 10) * 100 = of_int 9" "(1 - c) * (7 / 10) * 100 = of_int 21"
      "(1 - c) * (5 / 10) * 100 = of_int 15" by (simp_all add: 1)
    then show ?thesis by blast
  next
    case 2
    have "(1 - c) * (3 / 10) * 100 = of_int 6" "(1 - c) * (7 / 10) * 100 = of_int 14"
      "(1 - c) * (5 / 10) * 100 = of_int 10" by (simp_all add: 2)
    then show ?thesis by blast
  next
    case 3
    have "(1 - c) * (3 / 10) * 100 = of_int 3" "(1 - c) * (7 / 10) * 100 = of_int 7"
      "(1 - c) * (5 / 10) * 100 = of_int 5" by (simp_all add: 3)
    then show ?thesis by blast
  qed
  then show "round2 ((1 - c) * (3 / 10)) = (1 - c) * (3 / 10)"
    and "round2 ((1 - c) * (7 / 10)) = (1 - c) * (7 / 10)"
    and "round2 ((1 - c) * (5 / 10)) = (1 - c) * (5 / 10)"
    using round2_exact by blast+
qed

lemma returned_confidence: "s_confidence (analyzeSentimentSimple text) = simple_confidence text"
  by (simp add: analyzeSentimentSimple_def round2_simple_confidence)


section \<open>The rule-based scorer: counting, confidence and probabilities\<close>

text \<open>
  Claim C7, as amended. For every input text the scorer counts, for the positive list and
  for the negative list, how many words of the list occur at least once as a substring of
  the lower-cased text: a word that occurs several times counts once. The class with the
  higher count wins with confidence \<open>min (0.6 + 0.1 * count) 0.95\<close>, and equal counts
  (zero matches included) give Neutral with confidence 0.7.
\<close>

theorem simple_scorer_counts_listed_words:
  "positiveScore text =
     length (filter (\<lambda>w. \<exists>ps ss. toLowerCase text = ps @ w @ ss) positiveWords)
   \<and> negativeScore text =
     length (filter (\<lambda>w. \<exists>ps ss. toLowerCase text = ps @ w @ ss) negativeWords)
   \<and> label (analyzeSentimentSimple text) =
     (if positiveScore text > negativeScore text then Positive
      else if negativeScore text > positiveScore text then Negative else Neutral)
   \<and> s_confidence (analyzeSentimentSimple text) =
     (if positiveScore text > negativeScore text
        then min (6 / 10 + of_nat (positiveScore text) * (1 / 10)) (95 / 100)
      else if negativeScore text > positiveScore text
        then min (6 / 10 + of_nat (negativeScore text) * (1 / 10)) (95 / 100)
      else 7 / 10)"
proof (intro conjI)
  show "positiveScore text =
      length (filter (\<lambda>w. \<exists>ps ss. toLowerCase text = ps @ w @ ss) positiveWords)"
    unfolding positiveScore_def by (rule score_substrings)
  show "negativeScore text =
      length (filter (\<lambda>w. \<exists>ps ss. toLowerCase text = ps @ w @ ss) negativeWords)"
    unfolding negativeScore_def by (rule score_substrings)
  show "label (analyzeSentimentSimple text) =
     (if positiveScore text > negativeScore text then Positive
      else if negativeScore text > positiveScore text then Negative else Neutral)"
    by (simp add: analyzeSentimentSimple_def simple_sentiment_def)
  show "s_confidence (analyzeSentimentSimple text) =
     (if positiveScore text > negativeScore text
        then min (6 / 10 + of_nat (positiveScore text) * (1 / 10)) (95 / 100)
      else if negativeScore text > positiveScore text
        then min (6 / 10 + of_nat (negativeScore text) * (1 / 10)) (95 / 100)
      else 7 / 10)"
    unfolding returned_confidence by (simp only: simple_confidence_def)
qed

theorem simple_scorer_counts_listed_words_witness:
  "label (analyzeSentimentSimple ''I hate bad days'') = Negative
   \<and> s_confidence (analyzeSentimentSimple ''I hate bad days'') = 8 / 10"
proof -
  have p: "positiveScore ''I hate bad days'' = 0" by code_simp
  have n: "negativeScore ''I hate bad days'' = 2" by code_simp
  note t = simple_scorer_counts_listed_words[of "''I hate bad days''"]
  show ?thesis
    using t[THEN conjunct2, THEN conjunct2] by (simp add: p n)
qed

text \<open>
  Claim C7 as it is written counts occurrences. The text \<open>love love\<close> holds two occurrences
  of a positive word, which would give confidence 0.8; the scorer counts the word once and
  returns 0.7.
\<close>

theorem simple_scorer_occurrences_counterexample:
  "spec_occurrence_count positiveWords (toLowerCase ''love love'') = 2
   \<and> spec_occurrence_count negativeWords (toLowerCase ''love love'') = 0
   \<and> spec_simple_confidence ''love love'' = 8 / 10
   \<and> label (analyzeSentimentSimple ''love love'') = Positive
   \<and> s_confidence (analyzeSentimentSimple ''love love'') = 7 / 10
   \<and> s_confidence (analyzeSentimentSimple ''love love'') \<noteq> spec_simple_confidence ''love love''"
  by code_simp

text \<open>
  Claim C8, as amended. Before the rounding of the \<open>return\<close> statement the winning class
  has the confidence as its probability and the rest \<open>1 - confidence\<close> is split 30/70
  between the other polar class and Neutral when the winner is Positive or Negative, and
  50/50 between Positive and Negative when the result is Neutral. The returned
  probabilities are these values rounded to two decimals, a tie going up; they equal the
  unrounded split whenever the confidence is below 0.95.
\<close>

theorem simple_scorer_split_before_rounding:
  "s_probabilities (analyzeSentimentSimple text) =
     \<lparr>pPositive = round2 (pPositive (simple_probabilities text)),
      pNegative = round2 (pNegative (simple_probabilities text)),
      pNeutral = round2 (pNeutral (simple_probabilities text))\<rparr>
   \<and> simple_probabilities text =
     (let c = s_confidence (analyzeSentimentSimple text) in
      case label (analyzeSentimentSimple text) of
        Positive \<Rightarrow>
          \<lparr>pPositive = c, pNegative = (1 - c) * (3 / 10), pNeutral = (1 - c) * (7 / 10)\<rparr>
      | Negative \<Rightarrow>
          \<lparr>pPositive = (1 - c) * (3 / 10), pNegative = c, pNeutral = (1 - c) * (7 / 10)\<rparr>
      | Neutral \<Rightarrow>
          \<lparr>pPositive = (1 - c) * (5 / 10), pNegative = (1 - c) * (5 / 10), pNeutral = c\<rparr>)
   \<and> (s_confidence (analyzeSentimentSimple text) < 95 / 100 \<longrightarrow>
        s_probabilities (analyzeSentimentSimple text) = simple_probabilities text)"
proof (intro conjI impI)
  show "s_probabilities (analyzeSentimentSimple text) =
     \<lparr>pPositive = round2 (pPositive (simple_probabilities text)),
      pNegative = round2 (pNegative (simple_probabilities text)),
      pNeutral = round2 (pNeutral (simple_probabilities text))\<rparr>"
    by (simp add: analyzeSentimentSimple_def)
  have lab: "label (analyzeSentimentSimple text) = simple_sentiment text"
    by (simp add: analyzeSentimentSimple_def)
  show "simple_probabilities text =
     (let c = s_confidence (analyzeSentimentSimple text) in
      case label (analyzeSentimentSimple text) of
        Positive \<Rightarrow>
          \<lparr>pPositive = c, pNegative = (1 - c) * (3 / 10), pNeutral = (1 - c) * (7 / 10)\<rparr>
      | Negative \<Rightarrow>
          \<lparr>pPositive = (1 - c) * (3 / 10), pNegative = c, pNeutral = (1 - c) * (7 / 10)\<rparr>
      | Neutral \<Rightarrow>
          \<lparr>pPositive = (1 - c) * (5 / 10), pNegative = (1 - c) * (5 / 10), pNeutral = c\<rparr>)"
    unfolding returned_confidence lab
    by (cases "simple_sentiment text") (simp_all add: simple_probabilities_def Let_def)
  assume below: "s_confidence (analyzeSentimentSimple text) < 95 / 100"
  have c: "simple_confidence text = 7 / 10 \<or> simple_confidence text = 8 / 10
      \<or> simple_confidence text = 9 / 10"
    using below returned_confidence[of "text"] simple_confidence_values[of "text"] by auto
  have r: "round2 (simple_confidence text) = simple_confidence text"
    by (rule round2_simple_confidence)
  show "s_probabilities (analyzeSentimentSimple text) = simple_probabilities text"
    unfolding analyzeSentimentSimple_def simple_probabilities_def Let_def
    by (simp only: round2_split_below_cap[OF c] r simple_result.simps
        class_probabilities.simps if_distrib[of pPositive] if_distrib[of pNegative]
        if_distrib[of pNeutral] if_distrib[of round2] split: if_split) simp
qed

theorem simple_scorer_split_before_rounding_witness:
  "s_confidence (analyzeSentimentSimple ''I hate bad days'') < 95 / 100
   \<and> s_probabilities (analyzeSentimentSimple ''I hate bad days'') =
       \<lparr>pPositive = 6 / 100, pNegative = 8 / 10, pNeutral = 14 / 100\<rparr>"
proof -
  have l: "label (analyzeSentimentSimple ''I hate bad days'') = Negative" by code_simp
  have c: "s_confidence (analyzeSentimentSimple ''I hate bad days'') = 8 / 10" by code_simp
  note t = simple_scorer_split_before_rounding[of "''I hate bad days''"]
  have B: "simple_probabilities ''I hate bad days'' =
      \<lparr>pPositive = 6 / 100, pNegative = 8 / 10, pNeutral = 14 / 100\<rparr>"
    using t[THEN conjunct2, THEN conjunct1] by (simp add: l c Let_def)
  have C: "s_probabilities (analyzeSentimentSimple ''I hate bad days'') =
      simple_probabilities ''I hate bad days''"
    using t[THEN conjunct2, THEN conjunct2] by (simp add: c)
  show ?thesis unfolding C B c by simp
qed

text \<open>
  Claim C8 as it is written speaks of every result. Four positive words give confidence
  0.95; the returned Negative and Neutral probabilities are 0.02 and 0.04, not the 30/70
  split 0.015 and 0.035 of the remaining 0.05.
\<close>

theorem simple_scorer_split_counterexample:
  "label (analyzeSentimentSimple ''love great awesome amazing'') = Positive
   \<and> s_confidence (analyzeSentimentSimple ''love great awesome amazing'') = 95 / 100
   \<and> pNegative (s_probabilities (analyzeSentimentSimple ''love great awesome amazing''))
       = 2 / 100
   \<and> pNeutral (s_probabilities (analyzeSentimentSimple ''love great awesome amazing''))
       = 4 / 100
   \<and> pNegative (s_probabilities (analyzeSentimentSimple ''love great awesome amazing''))
       \<noteq> (1 - s_confidence (analyzeSentimentSimple ''love great awesome amazing'')) * (3 / 10)
   \<and> pNeutral (s_probabilities (analyzeSentimentSimple ''love great awesome amazing''))
       \<noteq> (1 - s_confidence (analyzeSentimentSimple ''love great awesome amazing'')) * (7 / 10)"
  by code_simp

text \<open>
  Claim C10. For every input text the confidence of the scorer lies in \<open>[0.6, 0.95]\<close>, and
  the three class probabilities it builds, before the rounding of the \<open>return\<close> statement,
  lie in \<open>[0, 1]\<close> and add up to exactly 1.
\<close>

theorem simple_scorer_confidence_and_mass:
  "6 / 10 \<le> s_confidence (analyzeSentimentSimple text)
   \<and> s_confidence (analyzeSentimentSimple text) \<le> 95 / 100
   \<and> 6 / 10 \<le> simple_confidence text \<and> simple_confidence text \<le> 95 / 100
   \<and> 0 \<le> pPositive (simple_probabilities text) \<and> pPositive (simple_probabilities text) \<le> 1
   \<and> 0 \<le> pNegative (simple_probabilities text) \<and> pNegative (simple_probabilities text) \<le> 1
   \<and> 0 \<le> pNeutral (simple_probabilities text) \<and> pNeutral (simple_probabilities text) \<le> 1
   \<and> pPositive (simple_probabilities text) + pNegative (simple_probabilities text)
       + pNeutral (simple_probabilities text) = 1"
proof -
  note r = simple_confidence_range[of "text"]
  have "0 \<le> pPositive (simple_probabilities text) \<and> pPositive (simple_probabilities text) \<le> 1
   \<and> 0 \<le> pNegative (simple_probabilities text) \<and> pNegative (simple_probabilities text) \<le> 1
   \<and> 0 \<le> pNeutral (simple_probabilities text) \<and> pNeutral (simple_probabilities text) \<le> 1
   \<and> pPositive (simple_probabilities text) + pNegative (simple_probabilities text)
       + pNeutral (simple_probabilities text) = 1"
    using r
    by (cases "simple_sentiment text")
      (simp_all add: simple_probabilities_def Let_def field_simps)
  then show ?thesis using r returned_confidence[of "text"] by simp
qed



section \<open>The gateway: basic facts\<close>

lemma floor_rat_numeral:
  "\<lfloor>(numeral a :: rat) / numeral b\<rfloor> = numeral a div numeral b"
  using floor_divide_of_int_eq[of "numeral a" "numeral b", where ?'a = rat] by simp

lemma floor_half: "\<lfloor>1 / 2 :: rat\<rfloor> = 0"
  using floor_divide_of_int_eq[of 1 2, where ?'a = rat] by simp

lemma nearest_thousandth:
  fixes z :: rat
  shows "\<bar>of_int \<lfloor>z * 1000 + 1 / 2\<rfloor> / 1000 - z\<bar> \<le> 1 / 2000"
proof -
  define f where "f = \<lfloor>z * 1000 + 1 / 2\<rfloor>"
  have "of_int f \<le> z * 1000 + 1 / 2" and "z * 1000 + 1 / 2 < of_int f + 1"
    unfolding f_def by linarith+
  then have "\<bar>of_int f / 1000 - z\<bar> \<le> 1 / 2000"
    by linarith
  then show ?thesis unfolding f_def .
qed

lemma round3_rounds: "rounded_to_3_places x (round3 x)"
proof (cases "x < 0")
  case True
  define f where "f = \<lfloor>(- x) * 1000 + 1 / 2\<rfloor>"
  have r: "round3 x = - (of_int f / 1000)"
    using True by (simp add: round3_def f_def)
  then have "round3 x = of_int (- f) / 1000" by simp
  moreover have "\<bar>of_int f / 1000 - (- x)\<bar> \<le> 1 / 2000"
    unfolding f_def by (rule nearest_thousandth)
  then have "\<bar>round3 x - x\<bar> \<le> 1 / 2000"
    unfolding r by linarith
  ultimately show ?thesis unfolding rounded_to_3_places_def by blast
next
  case False
  have "round3 x = of_int \<lfloor>x * 1000 + 1 / 2\<rfloor> / 1000"
    using False by (simp add: round3_def)
  moreover have "\<bar>round3 x - x\<bar> \<le> 1 / 2000"
    using False nearest_thousandth[of x] by (simp add: round3_def)
  ultimately show ?thesis unfolding rounded_to_3_places_def by blast
qed

lemma round3_zero: "round3 0 = 0"
  by (simp add: round3_def floor_half)

lemma toFixed3_Inr_iff: "toFixed3 v = Inr q \<longleftrightarrow> (\<exists>x. v = JNum x \<and> q = round3 x)"
  by (cases v) auto

lemma roundEntries_InrD:
  "roundEntries kvs = Inr qs \<Longrightarrow>
     list_all2 (\<lambda>(k, v) (k', q). k' = k \<and> (\<exists>x. v = JNum x \<and> q = round3 x))
       (filter (\<lambda>(k, v). k \<noteq> ''__proto__'') kvs) qs"
proof (induction kvs arbitrary: qs)
  case Nil
  then show ?case by simp
next
  case (Cons kv kvs)
  obtain k v where kv: "kv = (k, v)" by (cases kv)
  from Cons.prems obtain q where q: "toFixed3 v = Inr q"
    unfolding kv by (cases "toFixed3 v") simp_all
  from Cons.prems q obtain qs' where qs': "roundEntries kvs = Inr qs'"
    unfolding kv by (cases "roundEntries kvs") simp_all
  from Cons.prems q qs' have qs: "qs = (if k = ''__proto__'' then qs' else (k, q) # qs')"
    unfolding kv by simp
  from q obtain x where "v = JNum x" "q = round3 x" using toFixed3_Inr_iff by blast
  with Cons.IH[OF qs'] qs show ?case unfolding kv by simp
qed

lemma roundEntries_numeric:
  "list_all (\<lambda>(k, x). is_number x) kvs \<Longrightarrow> \<exists>qs. roundEntries kvs = Inr qs"
proof (induction kvs)
  case Nil
  then show ?case by simp
next
  case (Cons kv kvs)
  obtain k v where kv: "kv = (k, v)" by (cases kv)
  from Cons.prems obtain x where "v = JNum x" unfolding kv by (cases v) simp_all
  moreover from Cons obtain qs where "roundEntries kvs = Inr qs" by auto
  ultimately show ?case unfolding kv by simp
qed

lemma getProp_propOf:
  "m \<noteq> JUndefined \<Longrightarrow> m \<noteq> JNull \<Longrightarrow> getProp m k = Inr (propOf m k)"
  by (cases m) (simp_all add: propOf_def)

lemma getSentimentEmoji_JStr: "\<exists>em. getSentimentEmoji (JStr s) = Inr em"
  by (simp add: getSentimentEmoji_def)

lemma getSentimentEmoji_total:
  "\<exists>em. getSentimentEmoji s = Inr em" if "keyString s \<noteq> Inl TypeError"
proof (cases "keyString s")
  case (Inl e)
  then have "keyString s = Inl TypeError" by (cases e) simp
  with that show ?thesis by simp
next
  case (Inr k)
  then show ?thesis by (simp add: getSentimentEmoji_def split: option.splits)
qed

lemma transformMLResponse_InrD:
  assumes "transformMLResponse m t ot = Inr r"
  shows "\<exists>s c ps.
      getProp m ''sentiment'' = Inr s \<and> getProp m ''confidence'' = Inr c
    \<and> toFixed3 (if truthy c then c else JNum 0) = Inr (confidence r)
    \<and> getProp m ''probabilities'' = Inr ps
    \<and> (if truthy ps then map_sum id Some (roundEntries (ownEntries ps)) else Inr None)
        = Inr (probabilities r)
    \<and> getSentimentEmoji s = Inr (emoji r)
    \<and> sentiment r = s \<and> processingTime r = t
    \<and> r_text r = (case ot of None \<Rightarrow> None | Some x \<Rightarrow> if x \<noteq> [] then Some x else None)"
proof -
  obtain s where s: "getProp m ''sentiment'' = Inr s"
    using assms by (cases "getProp m ''sentiment''") (simp_all add: transformMLResponse_def)
  obtain c where c: "getProp m ''confidence'' = Inr c"
    using assms s by (cases "getProp m ''confidence''") (simp_all add: transformMLResponse_def)
  obtain conf where conf: "toFixed3 (if truthy c then c else JNum 0) = Inr conf"
    using assms s c
    by (cases "toFixed3 (if truthy c then c else JNum 0)")
      (simp_all add: transformMLResponse_def)
  obtain ps where ps: "getProp m ''probabilities'' = Inr ps"
    using assms s c conf
    by (cases "getProp m ''probabilities''") (simp_all add: transformMLResponse_def)
  obtain probs where probs:
    "(if truthy ps then map_sum id Some (roundEntries (ownEntries ps)) else Inr None)
        = Inr probs"
    using assms s c conf ps
    by (cases "if truthy ps then map_sum id Some (roundEntries (ownEntries ps)) else Inr None")
      (simp_all add: transformMLResponse_def)
  obtain em where em: "getSentimentEmoji s = Inr em"
    using assms s c conf ps probs
    by (cases "getSentimentEmoji s") (simp_all add: transformMLResponse_def)
  have "r = \<lparr>sentiment = s, confidence = conf, processingTime = t, probabilities = probs,
      r_text = (case ot of None \<Rightarrow> None | Some x \<Rightarrow> if x \<noteq> [] then Some x else None),
      emoji = em\<rparr>"
    using assms s c conf ps probs em by (simp add: transformMLResponse_def)
  then show ?thesis using s c conf ps probs em by simp
qed

lemma transformMLResponse_InrI:
  assumes "getProp m ''sentiment'' = Inr s" and "getProp m ''confidence'' = Inr c"
    and "toFixed3 (if truthy c then c else JNum 0) = Inr conf"
    and "getProp m ''probabilities'' = Inr ps"
    and "(if truthy ps then map_sum id Some (roundEntries (ownEntries ps)) else Inr None)
        = Inr probs"
    and "getSentimentEmoji s = Inr em"
  shows "transformMLResponse m t ot =
     Inr \<lparr>sentiment = s, confidence = conf, processingTime = t, probabilities = probs,
      r_text = (case ot of None \<Rightarrow> None | Some x \<Rightarrow> if x \<noteq> [] then Some x else None),
      emoji = em\<rparr>"
  using assms by (simp add: transformMLResponse_def)

lemma transformMLResponse_returns:
  assumes "m \<noteq> JUndefined" and "m \<noteq> JNull"
    and "\<not> truthy (propOf m ''confidence'') \<or> is_number (propOf m ''confidence'')"
    and "\<not> truthy (propOf m ''probabilities'') \<or> numeric_entries (propOf m ''probabilities'')"
    and "keyString (propOf m ''sentiment'') \<noteq> Inl TypeError"
  shows "\<exists>r. transformMLResponse m t ot = Inr r
    \<and> toFixed3 (if truthy (propOf m ''confidence'') then propOf m ''confidence'' else JNum 0)
        = Inr (confidence r)
    \<and> sentiment r = propOf m ''sentiment''
    \<and> getSentimentEmoji (propOf m ''sentiment'') = Inr (emoji r)"
proof -
  note gp = getProp_propOf[OF assms(1,2)]
  have "\<exists>conf. toFixed3 (if truthy c then c else JNum 0) = Inr conf"
    if "\<not> truthy c \<or> is_number c" for c
    using that by (cases c) auto
  from this[OF assms(3)] obtain conf where conf: "toFixed3 (if truthy (propOf m ''confidence'')
      then propOf m ''confidence'' else JNum 0) = Inr conf" by blast
  from assms(4) have "\<exists>probs. (if truthy (propOf m ''probabilities'')
      then map_sum id Some (roundEntries (ownEntries (propOf m ''probabilities'')))
      else Inr None) = Inr probs"
  proof
    assume "\<not> truthy (propOf m ''probabilities'')"
    then show ?thesis by simp
  next
    assume "numeric_entries (propOf m ''probabilities'')"
    then obtain qs where "roundEntries (ownEntries (propOf m ''probabilities'')) = Inr qs"
      unfolding numeric_entries_def using roundEntries_numeric by blast
    then show ?thesis by simp
  qed
  then obtain probs where probs:
    "(if truthy (propOf m ''probabilities'')
      then map_sum id Some (roundEntries (ownEntries (propOf m ''probabilities'')))
      else Inr None) = Inr probs" by blast
  obtain em where em: "getSentimentEmoji (propOf m ''sentiment'') = Inr em"
    using getSentimentEmoji_total[OF assms(5)] by blast
  show ?thesis
    using transformMLResponse_InrI[OF gp gp conf gp probs em, of t ot] conf em by simp
qed

lemma well_typed_prediction_fields:
  assumes "well_typed_prediction p"
  shows "p \<noteq> JUndefined" and "p \<noteq> JNull"
    and "is_string (propOf p ''sentiment'')" and "is_number (propOf p ''confidence'')"
    and "\<not> truthy (propOf p ''probabilities'') \<or> numeric_entries (propOf p ''probabilities'')"
proof -
  from assms obtain fs where p: "p = JObj fs"
    by (cases p) (simp_all add: well_typed_prediction_def)
  show "p \<noteq> JUndefined" and "p \<noteq> JNull" using p by simp_all
  show "is_string (propOf p ''sentiment'')" and "is_number (propOf p ''confidence'')"
    using assms p by (simp_all add: well_typed_prediction_def)
  show "\<not> truthy (propOf p ''probabilities'') \<or> numeric_entries (propOf p ''probabilities'')"
    using assms p
    by (auto simp: well_typed_prediction_def propOf_def split: option.splits jsval.splits)
qed

lemma keyString_string: "is_string s \<Longrightarrow> keyString s \<noteq> Inl TypeError"
  by (cases s) simp_all

lemma well_typed_prediction_returns:
  assumes "well_typed_prediction p"
  shows "\<exists>r. transformMLResponse p t ot = Inr r"
proof -
  note f = well_typed_prediction_fields[OF assms]
  from transformMLResponse_returns[OF f(1) f(2) _ f(5) keyString_string[OF f(3)], of t ot] f(4)
  show ?thesis by blast
qed

lemma firstError_map_InrD:
  "firstError (map f xs) = Inr ys \<Longrightarrow>
     length ys = length xs \<and> (\<forall>i < length xs. f (xs ! i) = Inr (ys ! i))"
proof (induction xs arbitrary: ys)
  case Nil
  then show ?case by simp
next
  case (Cons x xs)
  from Cons.prems obtain y where y: "f x = Inr y"
    by (cases "f x") simp_all
  from Cons.prems y obtain ys' where ys': "firstError (map f xs) = Inr ys'"
    by (cases "firstError (map f xs)") simp_all
  from Cons.prems y ys' have ys: "ys = y # ys'" by simp
  from Cons.IH[OF ys'] have len: "length ys' = length xs"
    and nth: "\<forall>i < length xs. f (xs ! i) = Inr (ys' ! i)" by simp_all
  show ?case
  proof (intro conjI allI impI)
    show "length ys = length (x # xs)" using ys len by simp
    fix i assume "i < length (x # xs)"
    then show "f ((x # xs) ! i) = Inr (ys ! i)"
      using y ys nth by (cases i) simp_all
  qed
qed

lemma firstError_map_total:
  "(\<And>x. x \<in> set xs \<Longrightarrow> \<exists>y. f x = Inr y) \<Longrightarrow> \<exists>ys. firstError (map f xs) = Inr ys"
proof (induction xs)
  case Nil
  then show ?case by simp
next
  case (Cons x xs)
  from Cons.prems[of x] obtain y where "f x = Inr y" by auto
  moreover from Cons obtain ys where "firstError (map f xs) = Inr ys" by auto
  ultimately show ?case by simp
qed

lemma isSpace_blank: "isSpace (CHR '' '')"
  by (simp add: isSpace_def)

lemma trim_padded:
  assumes "\<not> isSpace c"
  shows "trim (c # replicate n (CHR '' '')) = [c]"
proof -
  have "dropWhile isSpace (c # replicate n (CHR '' '')) = c # replicate n (CHR '' '')"
    using assms by simp
  moreover have "rev (c # replicate n (CHR '' '')) = replicate n (CHR '' '') @ [c]"
    by simp
  moreover have "dropWhile isSpace (replicate n (CHR '' '') @ [c]) = dropWhile isSpace [c]"
    by (rule dropWhile_append2) (simp add: isSpace_blank)
  ultimately show ?thesis using assms by (simp add: trim_def)
qed

lemma valid_text_nonempty: "valid_text t \<Longrightarrow> t \<noteq> []"
  by (auto simp: valid_text_def trim_def)

lemma sample_reply_transformed:
  "transformMLResponse sample_reply t None =
     Inr \<lparr>sentiment = JStr ''Positive'', confidence = 9 / 10, processingTime = t,
          probabilities = None, r_text = None, emoji = Glyph SmilingFace\<rparr>"
  by (simp add: transformMLResponse_def sample_reply_def getSentimentEmoji_def round3_def
      floor_rat_numeral)

lemma malformed_reply_throws: "transformMLResponse malformed_reply t ot = Inl TypeError"
  by (simp add: transformMLResponse_def malformed_reply_def)

lemma stats_beginRequest:
  "stats (beginRequest req svc) =
     (stats svc)\<lparr>totalRequests := totalRequests (stats svc) + 1\<rparr>"
  by (simp add: beginRequest_def)

lemma stats_recordStats:
  "stats (recordStats t ok clk svc) = updateStats t ok clk (stats svc)"
  by (simp add: recordStats_def)

lemma totalRequests_updateStats: "totalRequests (updateStats t ok clk st) = totalRequests st"
  by (simp add: updateStats_def)

lemma analyzeSentiment_totalRequests:
  "totalRequests (stats (snd (analyzeSentiment env txt opts svc))) =
     totalRequests (stats svc) + 1"
  by (simp add: analyzeSentiment_def Let_def stats_beginRequest stats_recordStats
      totalRequests_updateStats split: sum.splits)

lemma analyzeBatchSentiment_totalRequests:
  "totalRequests (stats (snd (analyzeBatchSentiment env txts opts svc))) =
     totalRequests (stats svc) + 1"
  by (simp add: analyzeBatchSentiment_def Let_def stats_beginRequest stats_recordStats
      totalRequests_updateStats split: sum.splits)

lemma incremental_mean:
  "n \<noteq> 0 \<Longrightarrow> (a * (of_nat n - 1) + s) / of_nat n = a + (s - a) / (of_nat n :: rat)"
  by (simp add: field_simps)

lemma averageResponseTime_updateStats:
  assumes "totalRequests st \<noteq> 0"
  shows "averageResponseTime (updateStats t ok clk st) =
    Math_round (of_int (averageResponseTime st)
      + (of_int t - of_int (averageResponseTime st)) / of_nat (totalRequests st))"
  using incremental_mean[OF assms, of "of_int (averageResponseTime st)" "of_int t"]
  by (simp add: updateStats_def)


lemma transformPrediction_InrD:
  assumes "transformPrediction t texts p i = Inr r" and "i < length texts" and "texts ! i \<noteq> []"
  shows "r_text r = Some (texts ! i) \<and> getProp p ''sentiment'' = Inr (sentiment r)
     \<and> processingTime r = t"
proof -
  obtain s where s: "getProp p ''sentiment'' = Inr s"
    using assms(1) by (cases "getProp p ''sentiment''") (simp_all add: transformPrediction_def)
  obtain c where c: "getProp p ''confidence'' = Inr c"
    using assms(1) s by (cases "getProp p ''confidence''") (simp_all add: transformPrediction_def)
  obtain ps where ps: "getProp p ''probabilities'' = Inr ps"
    using assms(1) s c
    by (cases "getProp p ''probabilities''") (simp_all add: transformPrediction_def)
  have "transformMLResponse
      (JObj [(''sentiment'', s), (''confidence'', c), (''probabilities'', ps)])
      t (Some (texts ! i)) = Inr r"
    using assms(1,2) s c ps by (simp add: transformPrediction_def)
  from transformMLResponse_InrD[OF this] assms(3) s show ?thesis by auto
qed

lemma well_typed_prediction_transformed:
  assumes "well_typed_prediction p"
  shows "\<exists>r. transformPrediction t texts p i = Inr r"
proof -
  note f = well_typed_prediction_fields[OF assms]
  note gp = getProp_propOf[OF f(1) f(2)]
  define obj where "obj = JObj [(''sentiment'', propOf p ''sentiment''),
      (''confidence'', propOf p ''confidence''),
      (''probabilities'', propOf p ''probabilities'')]"
  have fields: "propOf obj ''sentiment'' = propOf p ''sentiment''"
    "propOf obj ''confidence'' = propOf p ''confidence''"
    "propOf obj ''probabilities'' = propOf p ''probabilities''"
    by (simp_all add: obj_def propOf_def)
  have "\<exists>r. transformMLResponse obj t
      (if i < length texts then Some (texts ! i) else None) = Inr r"
    using transformMLResponse_returns[of obj t "if i < length texts then Some (texts ! i) else None"]
      f(3,4,5) keyString_string[OF f(3)]
    unfolding fields by (auto simp: obj_def)
  then show ?thesis
    by (simp add: transformPrediction_def gp obj_def)
qed


lemma perform_totalRequests:
  "totalRequests (stats (perform c svc)) = totalRequests (stats svc) + 1"
  by (cases c) (simp_all add: analyzeSentiment_totalRequests analyzeBatchSentiment_totalRequests)

lemma run_calls_totalRequests:
  "totalRequests (stats (run_calls cs svc)) = totalRequests (stats svc) + length cs"
  by (induction cs arbitrary: svc) (simp_all add: perform_totalRequests)

lemma perform_counted_once:
  assumes "\<not> throws_after_reply c"
  shows "successfulRequests (stats (perform c svc)) + failedRequests (stats (perform c svc)) =
    successfulRequests (stats svc) + failedRequests (stats svc) + 1"
proof (cases c)
  case (AnalyzeCall env input opts)
  with assms show ?thesis
    by (auto simp: analyzeSentiment_def Let_def stats_beginRequest stats_recordStats
        updateStats_def split: sum.splits)
next
  case (BatchCall env txts opts)
  with assms show ?thesis
    by (auto simp: analyzeBatchSentiment_def Let_def stats_beginRequest stats_recordStats
        updateStats_def split: sum.splits)
qed

lemma run_calls_counted_once:
  assumes "list_all (\<lambda>c. \<not> throws_after_reply c) cs"
    and "successfulRequests (stats svc) + failedRequests (stats svc) = totalRequests (stats svc)"
  shows "successfulRequests (stats (run_calls cs svc)) + failedRequests (stats (run_calls cs svc))
    = totalRequests (stats (run_calls cs svc))"
  using assms
proof (induction cs arbitrary: svc)
  case Nil
  then show ?case by simp
next
  case (Cons c cs)
  from Cons.prems(1) have c: "\<not> throws_after_reply c"
    and cs: "list_all (\<lambda>c. \<not> throws_after_reply c) cs" by simp_all
  have "successfulRequests (stats (perform c svc)) + failedRequests (stats (perform c svc))
      = totalRequests (stats (perform c svc))"
    using perform_counted_once[OF c, of svc] Cons.prems(2) by (simp add: perform_totalRequests)
  from Cons.IH[OF cs this] show ?case by simp
qed


section \<open>Validation before dispatch\<close>

text \<open>
  Claim C1, as amended. For every analyze request whose text, after the trimming that the
  validation chain applies first, is empty or longer than 5000 characters, the route
  answers with the validation failure and status 400, makes no call to the endpoint and
  leaves the service, its statistics included, as it was.
\<close>

theorem analyze_rejects_invalid_text_before_dispatch:
  assumes "sanitizedText body = [] \<or> 5000 < length (sanitizedText body)"
  shows "fst (post_analyze env body svc) = ValidationFailed (validateTextInput body)
    \<and> validateTextInput body \<noteq> []
    \<and> statusCode (fst (post_analyze env body svc)) = 400
    \<and> requests_sent (snd (post_analyze env body svc)) = requests_sent svc
    \<and> stats (snd (post_analyze env body svc)) = stats svc
    \<and> snd (post_analyze env body svc) = svc"
proof -
  from assms have "validateTextInput body \<noteq> []"
    by (auto simp: validateTextInput_def Let_def)
  then show ?thesis by (simp add: post_analyze_def)
qed

theorem analyze_rejects_invalid_text_before_dispatch_witness:
  "sanitizedText \<lparr>b_text = Some ''   '', b_options = None\<rparr> = []
   \<and> fst (post_analyze (reply_after sample_reply 12)
        \<lparr>b_text = Some ''   '', b_options = None\<rparr> sample_service)
      = ValidationFailed
          [''Text is required'', ''Text must be between 1 and 5000 characters'']
   \<and> snd (post_analyze (reply_after sample_reply 12)
        \<lparr>b_text = Some ''   '', b_options = None\<rparr> sample_service)
      = sample_service"
proof -
  have e: "sanitizedText \<lparr>b_text = Some ''   '', b_options = None\<rparr> = []"
    by (simp add: sanitizedText_def trim_def isSpace_def)
  have v: "validateTextInput \<lparr>b_text = Some ''   '', b_options = None\<rparr>
      = [''Text is required'', ''Text must be between 1 and 5000 characters'']"
    by (simp add: validateTextInput_def e optionsOf_def)
  show ?thesis
    using analyze_rejects_invalid_text_before_dispatch
      [of "\<lparr>b_text = Some ''   '', b_options = None\<rparr>"
          "reply_after sample_reply 12" sample_service] e v
    by simp
qed

text \<open>
  Claim C1 as it is written measures the text itself. The letter \<open>a\<close> followed by 5000
  blanks is longer than 5000 characters; the chain trims it to one character, the request
  passes, the endpoint is called with the text \<open>a\<close> and the counters move.
\<close>

theorem analyze_padded_text_counterexample:
  "5000 < length (CHR ''a'' # replicate 5000 (CHR '' ''))
   \<and> statusCode (fst (post_analyze (reply_after sample_reply 12)
        \<lparr>b_text = Some (CHR ''a'' # replicate 5000 (CHR '' '')), b_options = None\<rparr>
        sample_service)) = 200
   \<and> requests_sent sample_service = []
   \<and> requests_sent (snd (post_analyze (reply_after sample_reply 12)
        \<lparr>b_text = Some (CHR ''a'' # replicate 5000 (CHR '' '')), b_options = None\<rparr>
        sample_service))
      = [\<lparr>path = ''/predict'', texts_sent = [''a''], include_probabilities = True,
          model_sent = ''random_forest'', timeout_ms = 30000\<rparr>]
   \<and> totalRequests (stats sample_service) = 0
   \<and> totalRequests (stats (snd (post_analyze (reply_after sample_reply 12)
        \<lparr>b_text = Some (CHR ''a'' # replicate 5000 (CHR '' '')), b_options = None\<rparr>
        sample_service))) = 1
   \<and> successfulRequests (stats (snd (post_analyze (reply_after sample_reply 12)
        \<lparr>b_text = Some (CHR ''a'' # replicate 5000 (CHR '' '')), b_options = None\<rparr>
        sample_service))) = 1"
proof -
  have t: "sanitizedText
      \<lparr>b_text = Some (CHR ''a'' # replicate 5000 (CHR '' '')), b_options = None\<rparr> = ''a''"
    by (simp add: sanitizedText_def trim_padded isSpace_def)
  have v: "validateTextInput
      \<lparr>b_text = Some (CHR ''a'' # replicate 5000 (CHR '' '')), b_options = None\<rparr> = []"
    by (simp add: validateTextInput_def t optionsOf_def)
  show ?thesis
    by (simp add: post_analyze_def v t optionsOf_def analyzeSentiment_def reply_after_def
        sample_reply_transformed beginRequest_def recordStats_def updateStats_def
        modelOrDefault_def sample_service_def newService_def initialStats_def Let_def)
qed


section \<open>The statistics of the service\<close>

text \<open>
  Claim C2 against the code. The endpoint answers a single analyze call with a confidence
  that is a string. \<open>updateStats(processingTime, true)\<close> has run when \<open>toFixed\<close> throws, and
  the \<open>catch\<close> block runs \<open>updateStats(processingTime, false)\<close>: one request, counted as a
  success and as a failure.
\<close>

theorem malformed_reply_counted_twice:
  "fst (analyzeSentiment (reply_after malformed_reply 12) ''good'' no_options sample_service)
     = Inl FailedToAnalyze
   \<and> totalRequests (stats (snd (analyzeSentiment (reply_after malformed_reply 12) ''good''
        no_options sample_service))) = 1
   \<and> successfulRequests (stats (snd (analyzeSentiment (reply_after malformed_reply 12) ''good''
        no_options sample_service))) = 1
   \<and> failedRequests (stats (snd (analyzeSentiment (reply_after malformed_reply 12) ''good''
        no_options sample_service))) = 1
   \<and> successfulRequests (stats (snd (analyzeSentiment (reply_after malformed_reply 12) ''good''
        no_options sample_service)))
      + failedRequests (stats (snd (analyzeSentiment (reply_after malformed_reply 12) ''good''
        no_options sample_service)))
      \<noteq> totalRequests (stats (snd (analyzeSentiment (reply_after malformed_reply 12) ''good''
        no_options sample_service)))"
  by (simp add: analyzeSentiment_def reply_after_def malformed_reply_throws
      beginRequest_def recordStats_def updateStats_def handleMLServiceError_def
      thrownTypeError_def sample_service_def newService_def initialStats_def Let_def)

text \<open>
  Claim C3, as amended. After every call that the endpoint failed or that returned a
  result, the stored average is \<open>Math.round\<close> of the running mean
  \<open>avg + (sample - avg) / n\<close>, taken from the stored, already rounded average, with \<open>n\<close>
  the count after the increment.
\<close>

theorem average_is_rounded_running_mean:
  "((\<exists>e. outcome env = Inl e) \<or> (\<exists>r. fst (analyzeSentiment env txt opts svc) = Inr r) \<longrightarrow>
      averageResponseTime (stats (snd (analyzeSentiment env txt opts svc))) =
        Math_round (of_int (averageResponseTime (stats svc))
          + (of_int (elapsed env) - of_int (averageResponseTime (stats svc)))
            / of_nat (totalRequests (stats (snd (analyzeSentiment env txt opts svc))))))
   \<and> ((\<exists>e. outcome env = Inl e)
        \<or> (\<exists>rs. fst (analyzeBatchSentiment env txts opts svc) = Inr rs) \<longrightarrow>
      averageResponseTime (stats (snd (analyzeBatchSentiment env txts opts svc))) =
        Math_round (of_int (averageResponseTime (stats svc))
          + (of_int (elapsed env) - of_int (averageResponseTime (stats svc)))
            / of_nat (totalRequests (stats (snd (analyzeBatchSentiment env txts opts svc))))))"
proof (intro conjI impI)
  assume "(\<exists>e. outcome env = Inl e) \<or> (\<exists>r. fst (analyzeSentiment env txt opts svc) = Inr r)"
  then show "averageResponseTime (stats (snd (analyzeSentiment env txt opts svc))) =
        Math_round (of_int (averageResponseTime (stats svc))
          + (of_int (elapsed env) - of_int (averageResponseTime (stats svc)))
            / of_nat (totalRequests (stats (snd (analyzeSentiment env txt opts svc)))))"
    unfolding analyzeSentiment_totalRequests
    by (auto simp: analyzeSentiment_def Let_def stats_beginRequest stats_recordStats
        averageResponseTime_updateStats split: sum.splits)
next
  assume "(\<exists>e. outcome env = Inl e)
      \<or> (\<exists>rs. fst (analyzeBatchSentiment env txts opts svc) = Inr rs)"
  then show "averageResponseTime (stats (snd (analyzeBatchSentiment env txts opts svc))) =
        Math_round (of_int (averageResponseTime (stats svc))
          + (of_int (elapsed env) - of_int (averageResponseTime (stats svc)))
            / of_nat (totalRequests (stats (snd (analyzeBatchSentiment env txts opts svc)))))"
    unfolding analyzeBatchSentiment_totalRequests
    by (auto simp: analyzeBatchSentiment_def Let_def stats_beginRequest stats_recordStats
        averageResponseTime_updateStats split: sum.splits)
qed

theorem average_is_rounded_running_mean_witness:
  "(\<exists>r. fst (analyzeSentiment (reply_after sample_reply 7) ''good'' no_options sample_service)
        = Inr r)
   \<and> averageResponseTime (stats (snd (analyzeSentiment (reply_after sample_reply 7) ''good''
        no_options sample_service))) = 7
   \<and> (\<exists>e. outcome (refused_after 5) = Inl e)
   \<and> averageResponseTime (stats (snd (analyzeBatchSentiment (refused_after 5) [''good'']
        no_options sample_service))) = 5"
proof -
  have ok: "\<exists>r. fst (analyzeSentiment (reply_after sample_reply 7) ''good'' no_options
      sample_service) = Inr r"
    by (simp add: analyzeSentiment_def reply_after_def sample_reply_transformed Let_def)
  have refused: "\<exists>e. outcome (refused_after 5) = Inl e"
    by (simp add: refused_after_def)
  have zero: "averageResponseTime (stats sample_service) = 0"
    by (simp add: sample_service_def newService_def initialStats_def)
  have one: "totalRequests (stats sample_service) = 0"
    by (simp add: sample_service_def newService_def initialStats_def)
  note t = average_is_rounded_running_mean
    [of "reply_after sample_reply 7" "''good''" no_options sample_service "[''good'']"]
  note u = average_is_rounded_running_mean
    [of "refused_after 5" "''good''" no_options sample_service "[''good'']"]
  have a: "averageResponseTime (stats (snd (analyzeSentiment (reply_after sample_reply 7)
      ''good'' no_options sample_service))) = 7"
    using t[THEN conjunct1] ok
    by (simp add: analyzeSentiment_totalRequests zero one reply_after_def Math_round_def
        floor_rat_numeral)
  have b: "averageResponseTime (stats (snd (analyzeBatchSentiment (refused_after 5) [''good'']
      no_options sample_service))) = 5"
    using u[THEN conjunct2] refused
    by (simp add: analyzeBatchSentiment_totalRequests zero one refused_after_def
        Math_round_def floor_rat_numeral)
  from ok a refused b show ?thesis by blast
qed

text \<open>
  Claim C3 as it is written leaves the rounding out. Two calls with the samples 1 and 2
  store the average 2; the running mean and the arithmetic mean are 1.5.
\<close>

theorem average_not_arithmetic_mean_counterexample:
  "fst (analyzeSentiment (reply_after sample_reply 1) ''good'' no_options sample_service)
     \<noteq> Inl FailedToAnalyze
  \<and> fst (analyzeSentiment (reply_after sample_reply 2) ''good'' no_options
        (snd (analyzeSentiment (reply_after sample_reply 1) ''good'' no_options sample_service)))
     \<noteq> Inl FailedToAnalyze
  \<and> averageResponseTime (stats (snd (analyzeSentiment (reply_after sample_reply 1) ''good''
        no_options sample_service))) = 1
  \<and> totalRequests (stats (snd (analyzeSentiment (reply_after sample_reply 2) ''good'' no_options
        (snd (analyzeSentiment (reply_after sample_reply 1) ''good'' no_options
           sample_service))))) = 2
  \<and> averageResponseTime (stats (snd (analyzeSentiment (reply_after sample_reply 2) ''good''
        no_options
        (snd (analyzeSentiment (reply_after sample_reply 1) ''good'' no_options
           sample_service))))) = 2
  \<and> (of_int (averageResponseTime (stats (snd (analyzeSentiment (reply_after sample_reply 2)
        ''good'' no_options
        (snd (analyzeSentiment (reply_after sample_reply 1) ''good'' no_options
           sample_service)))))) :: rat) \<noteq> 1 + (2 - 1) / 2
  \<and> (of_int (averageResponseTime (stats (snd (analyzeSentiment (reply_after sample_reply 2)
        ''good'' no_options
        (snd (analyzeSentiment (reply_after sample_reply 1) ''good'' no_options
           sample_service)))))) :: rat) \<noteq> (1 + 2) / 2"
  by (simp add: analyzeSentiment_def reply_after_def sample_reply_transformed
      beginRequest_def recordStats_def updateStats_def Math_round_def floor_rat_numeral
      sample_service_def newService_def initialStats_def Let_def)


section \<open>Batch results\<close>

text \<open>
  Claim C4. For every valid batch of texts and every reply whose \<open>predictions\<close> array has
  the length of the batch, the array that \<open>analyzeBatchSentiment\<close> returns has that length,
  and its element at every index is the transformed prediction of that index and carries
  the text of that index. The service does return an array when every prediction keeps
  the contract of the endpoint.
\<close>

theorem batch_results_index_aligned:
  assumes "valid_batch texts"
    and "outcome env = Inr data"
    and "getProp data ''predictions'' = Inr (JArr predictions)"
    and "length predictions = length texts"
  shows "(list_all well_typed_prediction predictions \<longrightarrow>
           (\<exists>results. fst (analyzeBatchSentiment env texts opts svc) = Inr results))
    \<and> (\<forall>results. fst (analyzeBatchSentiment env texts opts svc) = Inr results \<longrightarrow>
          length results = length texts
          \<and> (\<forall>i < length texts.
                transformPrediction (js_divide (of_int (elapsed env)) (of_nat (length texts)))
                  texts (predictions ! i) i = Inr (results ! i)
                \<and> r_text (results ! i) = Some (texts ! i)
                \<and> getProp (predictions ! i) ''sentiment'' = Inr (sentiment (results ! i))))"
proof -
  define t where "t = js_divide (of_int (elapsed env)) (of_nat (length texts))"
  define f where "f = (\<lambda>(prediction, index). transformPrediction t texts prediction index)"
  have tp: "transformPredictions data (elapsed env) texts =
      firstError (map f (zip predictions [0..<length predictions]))"
    using assms(3) by (simp add: transformPredictions_def f_def t_def)
  have res: "fst (analyzeBatchSentiment env texts opts svc) = Inr results \<longleftrightarrow>
      firstError (map f (zip predictions [0..<length predictions])) = Inr results" for results
    using assms(2) tp
    by (auto simp: analyzeBatchSentiment_def Let_def split: sum.splits)
  have total: "\<exists>results. fst (analyzeBatchSentiment env texts opts svc) = Inr results"
    if wt: "list_all well_typed_prediction predictions"
  proof -
    have "\<exists>y. f x = Inr y" if "x \<in> set (zip predictions [0..<length predictions])" for x
    proof -
      obtain p i where x: "x = (p, i)" by (cases x)
      with that have "p \<in> set predictions" by (auto dest: set_zip_leftD)
      with wt have "well_typed_prediction p" by (simp add: list_all_iff)
      from well_typed_prediction_transformed[OF this] show ?thesis
        unfolding x f_def by simp
    qed
    from firstError_map_total[of "zip predictions [0..<length predictions]" f, OF this]
    show ?thesis using res by blast
  qed
  have aligned: "length results = length texts
          \<and> (\<forall>i < length texts.
                transformPrediction t texts (predictions ! i) i = Inr (results ! i)
                \<and> r_text (results ! i) = Some (texts ! i)
                \<and> getProp (predictions ! i) ''sentiment'' = Inr (sentiment (results ! i)))"
    if "fst (analyzeBatchSentiment env texts opts svc) = Inr results" for results
  proof -
    from that res
    have fe: "firstError (map f (zip predictions [0..<length predictions])) = Inr results"
      by simp
    from firstError_map_InrD[OF fe] have len: "length results = length predictions"
      and nth: "\<forall>i < length predictions.
          f (zip predictions [0..<length predictions] ! i) = Inr (results ! i)"
      by simp_all
    show ?thesis
    proof (intro conjI allI impI)
      show "length results = length texts" using len assms(4) by simp
      fix i assume i: "i < length texts"
      then have ip: "i < length predictions" using assms(4) by simp
      with nth have tr: "transformPrediction t texts (predictions ! i) i = Inr (results ! i)"
        by (simp add: f_def)
      then show "transformPrediction t texts (predictions ! i) i = Inr (results ! i)" .
      from assms(1) i have "valid_text (texts ! i)"
        by (simp add: valid_batch_def list_all_length)
      then have ne: "texts ! i \<noteq> []" by (rule valid_text_nonempty)
      from transformPrediction_InrD[OF tr i ne]
      show "r_text (results ! i) = Some (texts ! i)"
        and "getProp (predictions ! i) ''sentiment'' = Inr (sentiment (results ! i))"
        by simp_all
    qed
  qed
  from total aligned show ?thesis unfolding t_def by blast
qed

theorem batch_results_index_aligned_witness:
  "valid_batch [''good day'', ''bad day'']
   \<and> (\<exists>results.
        fst (analyzeBatchSentiment (reply_after sample_batch_reply 12)
          [''good day'', ''bad day''] no_options sample_service) = Inr results
        \<and> length results = 2
        \<and> r_text (results ! 0) = Some ''good day'' \<and> sentiment (results ! 0) = JStr ''Positive''
        \<and> r_text (results ! 1) = Some ''bad day'' \<and> sentiment (results ! 1) = JStr ''Negative'')"
proof -
  have v: "valid_batch [''good day'', ''bad day'']"
    by (simp add: valid_batch_def valid_text_def trim_def isSpace_def)
  have o: "outcome (reply_after sample_batch_reply 12) = Inr sample_batch_reply"
    by (simp add: reply_after_def)
  have g: "getProp sample_batch_reply ''predictions'' = Inr (JArr sample_predictions)"
    by (simp add: sample_batch_reply_def)
  have l: "length sample_predictions = length [''good day'', ''bad day'']"
    by (simp add: sample_predictions_def)
  have w: "list_all well_typed_prediction sample_predictions"
    by (simp add: sample_predictions_def well_typed_prediction_def propOf_def)
  note t = batch_results_index_aligned[OF v o g l, of no_options sample_service]
  from t w obtain results where r:
    "fst (analyzeBatchSentiment (reply_after sample_batch_reply 12)
          [''good day'', ''bad day''] no_options sample_service) = Inr results"
    by blast
  with t have len: "length results = length [''good day'', ''bad day'']"
    and al: "\<forall>i < length [''good day'', ''bad day''].
        r_text (results ! i) = Some ([''good day'', ''bad day''] ! i)
        \<and> getProp (sample_predictions ! i) ''sentiment'' = Inr (sentiment (results ! i))"
    by blast+
  from al have "r_text (results ! 0) = Some ''good day''"
    and "sentiment (results ! 0) = JStr ''Positive''"
    by (auto simp: sample_predictions_def)
  moreover from al have "r_text (results ! 1) = Some ''bad day''"
    and "sentiment (results ! 1) = JStr ''Negative''"
    by (auto simp: sample_predictions_def)
  ultimately show ?thesis using v r len by auto
qed


section \<open>Health\<close>

text \<open>
  Claim C5. Both health routes report \<open>healthy\<close> exactly when each of the statuses they
  check, that of the API and that of the endpoint, is \<open>healthy\<close>, and \<open>degraded\<close> otherwise;
  the API is always reported healthy, and a failed probe of the endpoint gives
  \<open>degraded\<close>. The outer \<open>catch\<close> of the routes, which would answer \<open>unhealthy\<close>, is not
  reached by anything the routes compute.
\<close>

theorem health_status_aggregation:
  "h_status (get_health env) =
     (if list_all (\<lambda>status. status = JStr ''healthy'')
           [services_api (get_health env), services_mlService (get_health env)]
      then ''healthy'' else ''degraded'')
   \<and> h_status (get_health_detailed env) =
     (if list_all (\<lambda>status. status = JStr ''healthy'')
           [services_api (get_health_detailed env), services_mlService (get_health_detailed env)]
      then ''healthy'' else ''degraded'')
   \<and> services_api (get_health env) = JStr ''healthy''
   \<and> services_api (get_health_detailed env) = JStr ''healthy''
   \<and> ((\<exists>message. probe env = Inl message) \<longrightarrow>
        services_mlService (get_health env) = JStr ''unhealthy''
        \<and> h_status (get_health env) = ''degraded''
        \<and> services_mlService (get_health_detailed env) = JStr ''unhealthy''
        \<and> h_status (get_health_detailed env) = ''degraded'')
   \<and> ((\<exists>data. probe env = Inr data) \<longrightarrow> h_status (get_health env) = ''healthy'')"
  by (auto simp: get_health_def get_health_detailed_def checkMLServiceHealth_def propOf_def
      Let_def split: sum.splits)

theorem health_status_aggregation_witness:
  "h_status (get_health \<lparr>probe = Inl ''connect ECONNREFUSED'', probe_time = 3\<rparr>)
     = ''degraded''
   \<and> h_status (get_health_detailed \<lparr>probe = Inl ''connect ECONNREFUSED'', probe_time = 3\<rparr>)
     = ''degraded''
   \<and> h_status (get_health \<lparr>probe = Inr (JObj [(''status'', JStr ''ok'')]), probe_time = 3\<rparr>)
     = ''healthy''"
proof -
  have "\<exists>message. probe \<lparr>probe = Inl ''connect ECONNREFUSED'', probe_time = 3\<rparr> = Inl message"
    by simp
  with health_status_aggregation
    [of "\<lparr>probe = Inl ''connect ECONNREFUSED'', probe_time = 3\<rparr>"]
  have down:
    "h_status (get_health \<lparr>probe = Inl ''connect ECONNREFUSED'', probe_time = 3\<rparr>)
       = ''degraded''
     \<and> h_status (get_health_detailed \<lparr>probe = Inl ''connect ECONNREFUSED'', probe_time = 3\<rparr>)
       = ''degraded''"
    by blast
  have "\<exists>data. probe \<lparr>probe = Inr (JObj [(''status'', JStr ''ok'')]), probe_time = 3\<rparr>
      = Inr data"
    by simp
  with health_status_aggregation
    [of "\<lparr>probe = Inr (JObj [(''status'', JStr ''ok'')]), probe_time = 3\<rparr>"]
  have up:
    "h_status (get_health \<lparr>probe = Inr (JObj [(''status'', JStr ''ok'')]), probe_time = 3\<rparr>)
       = ''healthy''"
    by blast
  from down up show ?thesis by blast
qed


section \<open>Normalisation of the reply\<close>

text \<open>
  Claim C6. Whenever the normalisation returns a result, and it does for every reply that
  keeps the contract of the endpoint, the confidence of the result is the confidence of
  the reply rounded to 3 decimal places, and every probability of the result is the
  probability of the reply under the same key rounded to 3 decimal places: each value
  depends on its own input only, so nothing is renormalised. The one key an object
  assignment cannot store, \<open>__proto__\<close>, is left out.
\<close>

theorem normalization_rounds_to_three_places:
  "(well_typed_prediction mlResponse \<longrightarrow> (\<exists>r. transformMLResponse mlResponse t ot = Inr r))
   \<and> (\<forall>r. transformMLResponse mlResponse t ot = Inr r \<longrightarrow>
        (\<forall>c. getProp mlResponse ''confidence'' = Inr (JNum c) \<longrightarrow>
            confidence r = round3 c \<and> rounded_to_3_places c (confidence r))
      \<and> (\<forall>ps. getProp mlResponse ''probabilities'' = Inr ps \<and> truthy ps \<longrightarrow>
          (\<exists>qs. probabilities r = Some qs
            \<and> list_all2
                 (\<lambda>(k, v) (k', q). k' = k
                     \<and> (\<exists>x. v = JNum x \<and> q = round3 x \<and> rounded_to_3_places x q))
                 (filter (\<lambda>(k, v). k \<noteq> ''__proto__'') (ownEntries ps)) qs)))"
proof (intro conjI impI allI)
  assume "well_typed_prediction mlResponse"
  then show "\<exists>r. transformMLResponse mlResponse t ot = Inr r"
    by (rule well_typed_prediction_returns)
next
  fix r c
  assume ret: "transformMLResponse mlResponse t ot = Inr r"
    and cx: "getProp mlResponse ''confidence'' = Inr (JNum c)"
  from transformMLResponse_InrD[OF ret] cx
  have conf: "toFixed3 (if truthy (JNum c) then JNum c else JNum 0) = Inr (confidence r)"
    by auto
  have "confidence r = round3 c"
  proof (cases "c = 0")
    case True
    with conf show ?thesis by (simp add: round3_zero)
  next
    case False
    with conf show ?thesis by simp
  qed
  then show "confidence r = round3 c" and "rounded_to_3_places c (confidence r)"
    using round3_rounds[of c] by simp_all
next
  fix r ps
  assume ret: "transformMLResponse mlResponse t ot = Inr r"
    and ps: "getProp mlResponse ''probabilities'' = Inr ps \<and> truthy ps"
  from transformMLResponse_InrD[OF ret] ps
  have probs: "map_sum id Some (roundEntries (ownEntries ps)) = Inr (probabilities r)"
    by auto
  then obtain qs where qs: "roundEntries (ownEntries ps) = Inr qs"
    and pr: "probabilities r = Some qs"
    by (cases "roundEntries (ownEntries ps)") auto
  have "list_all2 (\<lambda>(k, v) (k', q). k' = k \<and> (\<exists>x. v = JNum x \<and> q = round3 x))
       (filter (\<lambda>(k, v). k \<noteq> ''__proto__'') (ownEntries ps)) qs"
    by (rule roundEntries_InrD[OF qs])
  then have "list_all2 (\<lambda>(k, v) (k', q). k' = k
                     \<and> (\<exists>x. v = JNum x \<and> q = round3 x \<and> rounded_to_3_places x q))
       (filter (\<lambda>(k, v). k \<noteq> ''__proto__'') (ownEntries ps)) qs"
    by (rule list_all2_mono) (auto simp: round3_rounds)
  with pr show "\<exists>qs. probabilities r = Some qs
            \<and> list_all2
                 (\<lambda>(k, v) (k', q). k' = k
                     \<and> (\<exists>x. v = JNum x \<and> q = round3 x \<and> rounded_to_3_places x q))
                 (filter (\<lambda>(k, v). k \<noteq> ''__proto__'') (ownEntries ps)) qs"
    by blast
qed

theorem normalization_rounds_to_three_places_witness:
  "well_typed_prediction skewed_reply
   \<and> (\<exists>r. transformMLResponse skewed_reply (Some 12) None = Inr r
        \<and> confidence r = 877 / 1000
        \<and> probabilities r
            = Some [(''Positive'', 1 / 2), (''Negative'', 1 / 10), (''Neutral'', 1 / 10)])"
proof -
  have w: "well_typed_prediction skewed_reply"
    by (simp add: skewed_reply_def well_typed_prediction_def propOf_def numeric_entries_def)
  note t = normalization_rounds_to_three_places[of skewed_reply "Some 12" None]
  from t w obtain r where r: "transformMLResponse skewed_reply (Some 12) None = Inr r"
    by blast
  have c: "getProp skewed_reply ''confidence'' = Inr (JNum (87654 / 100000))"
    by (simp add: skewed_reply_def)
  from t r c have "confidence r = round3 (87654 / 100000)" by blast
  then have conf: "confidence r = 877 / 1000"
    by (simp add: round3_def floor_rat_numeral)
  have ev: "transformMLResponse skewed_reply (Some 12) None =
      Inr \<lparr>sentiment = JStr ''Positive'', confidence = 877 / 1000,
           processingTime = Some 12,
           probabilities =
             Some [(''Positive'', 1 / 2), (''Negative'', 1 / 10), (''Neutral'', 1 / 10)],
           r_text = None, emoji = Glyph SmilingFace\<rparr>"
    by (simp add: transformMLResponse_def skewed_reply_def getSentimentEmoji_def round3_def
        floor_rat_numeral)
  with r have "r = \<lparr>sentiment = JStr ''Positive'', confidence = 877 / 1000,
           processingTime = Some 12,
           probabilities =
             Some [(''Positive'', 1 / 2), (''Negative'', 1 / 10), (''Neutral'', 1 / 10)],
           r_text = None, emoji = Glyph SmilingFace\<rparr>"
    by simp
  then have qs: "probabilities r
      = Some [(''Positive'', 1 / 2), (''Negative'', 1 / 10), (''Neutral'', 1 / 10)]"
    by (simp only: api_result.simps)
  with r conf qs show ?thesis using w by blast
qed

text \<open>
  Claim C9, as amended. For every reply other than \<open>null\<close> whose confidence is absent, null
  or otherwise falsy, whose probabilities are absent, falsy or hold numbers only, and
  whose sentiment can be converted to a property key, the normalisation returns a result
  with confidence 0, the sentiment of the reply and the emoji looked up from it.
\<close>

theorem missing_confidence_defaults_to_zero:
  assumes "mlResponse \<noteq> JUndefined" and "mlResponse \<noteq> JNull"
    and "\<not> truthy (propOf mlResponse ''confidence'')"
    and "\<not> truthy (propOf mlResponse ''probabilities'')
         \<or> numeric_entries (propOf mlResponse ''probabilities'')"
    and "keyString (propOf mlResponse ''sentiment'') \<noteq> Inl TypeError"
  shows "\<exists>r. transformMLResponse mlResponse t ot = Inr r
    \<and> confidence r = 0
    \<and> sentiment r = propOf mlResponse ''sentiment''
    \<and> getSentimentEmoji (propOf mlResponse ''sentiment'') = Inr (emoji r)"
proof -
  from assms(3)
  have "\<not> truthy (propOf mlResponse ''confidence'') \<or> is_number (propOf mlResponse ''confidence'')"
    by simp
  from transformMLResponse_returns[OF assms(1,2) this assms(4,5), of t ot]
  obtain r where r: "transformMLResponse mlResponse t ot = Inr r"
    and c: "toFixed3 (if truthy (propOf mlResponse ''confidence'')
        then propOf mlResponse ''confidence'' else JNum 0) = Inr (confidence r)"
    and s: "sentiment r = propOf mlResponse ''sentiment''"
    and e: "getSentimentEmoji (propOf mlResponse ''sentiment'') = Inr (emoji r)"
    by blast
  from c assms(3) have "confidence r = 0" by (simp add: round3_zero)
  with r s e show ?thesis by blast
qed

theorem missing_confidence_defaults_to_zero_witness:
  "\<exists>r. transformMLResponse (JObj [(''sentiment'', JStr ''Neutral''), (''confidence'', JNull)])
          (Some 12) None = Inr r
      \<and> confidence r = 0 \<and> sentiment r = JStr ''Neutral'' \<and> emoji r = Glyph NeutralFace"
proof -
  have "\<exists>r. transformMLResponse
        (JObj [(''sentiment'', JStr ''Neutral''), (''confidence'', JNull)]) (Some 12) None = Inr r
    \<and> confidence r = 0
    \<and> sentiment r
        = propOf (JObj [(''sentiment'', JStr ''Neutral''), (''confidence'', JNull)]) ''sentiment''
    \<and> getSentimentEmoji
        (propOf (JObj [(''sentiment'', JStr ''Neutral''), (''confidence'', JNull)]) ''sentiment'')
        = Inr (emoji r)"
    by (rule missing_confidence_defaults_to_zero) (simp_all add: propOf_def)
  then show ?thesis by (auto simp: propOf_def getSentimentEmoji_def)
qed

text \<open>
  Claim C9 as it is written covers every reply without a confidence. In this one a
  probability is a string: \<open>toFixed\<close> throws and no result is returned.
\<close>

theorem missing_confidence_counterexample:
  "getProp (JObj [(''sentiment'', JStr ''Positive''),
                  (''probabilities'', JObj [(''Positive'', JStr ''0.9'')])]) ''confidence''
     = Inr JUndefined
   \<and> transformMLResponse
        (JObj [(''sentiment'', JStr ''Positive''),
               (''probabilities'', JObj [(''Positive'', JStr ''0.9'')])]) (Some 12) None
     = Inl TypeError"
  by (simp add: transformMLResponse_def)

end
